theory Spec2Isabelle
  imports Main
begin

unbundle bit_operations_syntax

section \<open>PierreFS: whiteouts (wh.c) and exported operations (opts.c)\<close>

text \<open>
  The union file system stacks a read-write branch over a read-only branch. This theory
  embeds the whiteout support found in the second half of \<^verbatim>\<open>main.c\<close> (the unit
  \<^verbatim>\<open>wh.c\<close>) and the inode operations of \<^verbatim>\<open>opts.c\<close>. The C functions
  return an \<^verbatim>\<open>int\<close> that is negative for an error; they are modelled as functions
  from the state of the two branches to the returned integer, the contents left in
  the output buffers, and the new state.
\<close>

subsection \<open>Constants of the kernel headers\<close>

definition PATH_MAX :: nat where "PATH_MAX = 4096"

definition EPERM :: int where "EPERM = 1"
definition EFAULT :: int where "EFAULT = 14"
definition ENOENT :: int where "ENOENT = 2"
definition EEXIST :: int where "EEXIST = 17"
definition EISDIR :: int where "EISDIR = 21"
definition EINVAL :: int where "EINVAL = 22"
definition ENAMETOOLONG :: int where "ENAMETOOLONG = 36"

definition S_IRUSR :: int where "S_IRUSR = 256"
definition S_IFMT :: int where "S_IFMT = 61440"
definition S_IFIFO :: int where "S_IFIFO = 4096"
definition S_IFDIR :: int where "S_IFDIR = 16384"
definition S_IFREG :: int where "S_IFREG = 32768"
definition S_IFLNK :: int where "S_IFLNK = 40960"
definition S_IRWXUGO :: int where "S_IRWXUGO = 511"

definition S_ISFIFO :: "int \<Rightarrow> bool" where
  "S_ISFIFO m \<longleftrightarrow> (m AND S_IFMT) = S_IFIFO"

definition S_ISDIR :: "int \<Rightarrow> bool" where
  "S_ISDIR m \<longleftrightarrow> (m AND S_IFMT) = S_IFDIR"

subsection \<open>The C string library\<close>

text \<open>
  A C string is the list of its characters before the terminating NUL. A pointer into a
  string is the index it points at. The unbounded functions \<^verbatim>\<open>strcat\<close> and
  \<^verbatim>\<open>strncat\<close> write whatever they are given: the model returns the characters they
  write, however many, so that the size of the destination can be compared with them.
\<close>

text \<open>\<^verbatim>\<open>strrchr(s, c)\<close>: the index of the last \<open>c\<close> in \<open>s\<close>, \<open>None\<close> for the null pointer.\<close>

fun strrchr :: "string \<Rightarrow> char \<Rightarrow> nat option" where
  "strrchr [] c = None"
| "strrchr (x # xs) c =
     (case strrchr xs c of
        Some i \<Rightarrow> Some (Suc i)
      | None \<Rightarrow> if x = c then Some 0 else None)"

text \<open>
  \<^verbatim>\<open>snprintf(buf, size, "%s", src)\<close>: at most \<open>size - 1\<close> characters are stored, and the
  length of the whole of \<open>src\<close> is returned.
\<close>

definition snprintf_s :: "nat \<Rightarrow> string \<Rightarrow> string \<times> int" where
  "snprintf_s sz src = (take (sz - 1) src, int (length src))"

definition strncat :: "string \<Rightarrow> string \<Rightarrow> nat \<Rightarrow> string" where
  "strncat dst src n = dst @ take n src"

definition strcat :: "string \<Rightarrow> string \<Rightarrow> string" where
  "strcat dst src = dst @ src"

subsection \<open>The state of the branches\<close>

datatype kind = Regular | Directory | Fifo | Special | Symlink string

record node =
  n_kind :: kind
  n_mode :: int
  n_uid :: nat
  n_gid :: nat
  n_ino :: nat

text \<open>
  The objects of the underlying file systems by concrete path and the next free inode
  number; the open files, each a \<^verbatim>\<open>struct file\<close> known by its address and holding
  the path of its dentry, and the next free address; and whether the thread has
  faulted by reading through a pointer to nothing. A file that \<^verbatim>\<open>filp_close\<close> has
  released is no longer in \<open>opened\<close>: there is nothing to read behind its address.
  In a state where \<open>faulted\<close> is set the call has died in the kernel, and the status the
  model pairs with such a state is returned to nobody.
\<close>

record fs =
  files :: "string \<rightharpoonup> node"
  next_ino :: nat
  opened :: "nat \<rightharpoonup> string"
  next_fd :: nat
  faulted :: bool

datatype attr_flag = ATTR_MODE | ATTR_UID | ATTR_GID

record iattr =
  ia_valid :: "attr_flag set"
  ia_mode :: int
  ia_uid :: nat
  ia_gid :: nat

datatype find_flag = MUST_READ_ONLY

datatype prim =
  P_creat | P_notify_change | P_unlink | P_lookup | P_lstat
  | P_symlink | P_link | P_mkdir | P_mkfifo | P_mknod

text \<open>
  The mount context and everything the two units call that is defined elsewhere.
  \<^item> \<open>read_only_branch\<close>, \<open>read_write_branch\<close>: the branch roots of the context.
  \<^item> \<open>fsuid\<close>, \<open>fsgid\<close>: the identity of the calling process.
  \<^item> \<open>READ_ONLY\<close>, \<open>READ_WRITE\<close>, \<open>READ_WRITE_COPYUP\<close>: the origin codes of
    \<^verbatim>\<open>pierrefs.h\<close>, returned by \<^verbatim>\<open>find_file\<close>.
  \<^item> \<open>storage_error\<close>: what the underlying storage answers to a primitive on a path in a
    state, when it refuses it: a negative value is the error the primitive returns,
    without any effect. It stands for every cause of failure the state does not
    record (permissions, a missing parent, a read-only medium, an I/O error).
  \<^item> \<open>find_file\<close>, \<open>find_path\<close>, \<open>can_create\<close>, \<open>can_remove\<close>, \<open>get_relative_path\<close>,
    \<open>get_relative_path_for_file\<close>, \<open>set_me_worker\<close>:
    helpers of the other units, with the value they return, the contents they leave in
    their output buffer and, for those that write to the branches, the new state. The
    second argument of \<open>find_path\<close> is \<open>None\<close> for a null pointer and the present
    contents of the buffer otherwise.
  \<^item> \<open>dentry_notify_change\<close>: the status of the kernel's \<^verbatim>\<open>notify_change\<close> on a
    dentry of the union itself. Such a call is handed no object of a branch, neither a
    concrete path nor a dentry looked up on a branch: the inode whose attributes it
    changes is the one bound to the union's own dentry, and the state of the branches
    is not its to change.
\<close>

record env =
  read_only_branch :: string
  read_write_branch :: string
  fsuid :: nat
  fsgid :: nat
  READ_ONLY :: int
  READ_WRITE :: int
  READ_WRITE_COPYUP :: int
  storage_error :: "prim \<Rightarrow> string \<Rightarrow> fs \<Rightarrow> int"
  find_file :: "string \<Rightarrow> find_flag set \<Rightarrow> fs \<Rightarrow> int \<times> string"
  find_path :: "string \<Rightarrow> string option \<Rightarrow> fs \<Rightarrow> int \<times> string \<times> fs"
  can_create :: "string \<Rightarrow> string \<Rightarrow> fs \<Rightarrow> int"
  can_remove :: "string \<Rightarrow> string \<Rightarrow> fs \<Rightarrow> int"
  get_relative_path :: "string list \<Rightarrow> int \<times> string"
  get_relative_path_for_file :: "nat \<Rightarrow> string list \<Rightarrow> int \<times> string"
  set_me_worker :: "string \<Rightarrow> string \<Rightarrow> iattr \<Rightarrow> fs \<Rightarrow> int \<times> fs"
  dentry_notify_change :: "string list \<Rightarrow> iattr \<Rightarrow> int"

subsection \<open>Primitives of the underlying storage\<close>

text \<open>
  Modelled from the spec: \<^verbatim>\<open>creat_worker\<close> is defined in another unit. It
  creates the object at the path as a regular file of the calling identity with the given
  mode and opens it; an existing file is opened as it is; an object of another kind that
  occupies the name is a conflict (\<^verbatim>\<open>AlreadyExists\<close> in section 4.2).
\<close>

definition open_file :: "string \<Rightarrow> fs \<Rightarrow> fs" where
  "open_file p s = s\<lparr>opened := (opened s)(next_fd s \<mapsto> p), next_fd := Suc (next_fd s)\<rparr>"

definition creat_worker :: "env \<Rightarrow> string \<Rightarrow> int \<Rightarrow> fs \<Rightarrow> (int + nat) \<times> fs" where
  "creat_worker E p mode s =
     (if storage_error E P_creat p s < 0 then (Inl (storage_error E P_creat p s), s)
      else case files s p of
        None \<Rightarrow>
          (Inr (next_fd s),
           open_file p
             (s\<lparr>files := (files s)(p \<mapsto>
                  \<lparr>n_kind = Regular, n_mode = mode, n_uid = fsuid E, n_gid = fsgid E,
                   n_ino = next_ino s\<rparr>),
               next_ino := Suc (next_ino s)\<rparr>))
      | Some n \<Rightarrow>
          if n_kind n \<noteq> Regular then (Inl (- EEXIST), s)
          else (Inr (next_fd s), open_file p s))"

text \<open>
  \<^verbatim>\<open>fd->f_dentry\<close>: the dentry of a file, read through its address; \<open>None\<close> when
  there is no file behind the address.
\<close>

definition f_dentry :: "nat \<Rightarrow> fs \<Rightarrow> string option" where
  "f_dentry fd s = opened s fd"

text \<open>
  The kernel's \<^verbatim>\<open>notify_change\<close> on the inode of an object of a branch: the
  attributes flagged in \<open>ia_valid\<close> are stored, the others are not read.
\<close>

definition apply_iattr :: "iattr \<Rightarrow> node \<Rightarrow> node" where
  "apply_iattr a n =
     n\<lparr>n_mode := (if ATTR_MODE \<in> ia_valid a then ia_mode a else n_mode n),
       n_uid := (if ATTR_UID \<in> ia_valid a then ia_uid a else n_uid n),
       n_gid := (if ATTR_GID \<in> ia_valid a then ia_gid a else n_gid n)\<rparr>"

definition notify_change :: "env \<Rightarrow> string \<Rightarrow> iattr \<Rightarrow> fs \<Rightarrow> int \<times> fs" where
  "notify_change E p a s =
     (if storage_error E P_notify_change p s < 0 then (storage_error E P_notify_change p s, s)
      else case files s p of
        None \<Rightarrow> (- ENOENT, s)
      | Some n \<Rightarrow> (0, s\<lparr>files := (files s)(p \<mapsto> apply_iattr a n)\<rparr>))"

text \<open>\<^verbatim>\<open>filp_close\<close>: the file is closed and released.\<close>

definition filp_close :: "nat \<Rightarrow> fs \<Rightarrow> fs" where
  "filp_close fd s = s\<lparr>opened := (opened s)(fd := None)\<rparr>"

text \<open>
  The kernel's \<^verbatim>\<open>vfs_unlink\<close> on the dentry of an object of a branch: the name
  is removed; a directory is refused. Its first argument, for which the callers pass the
  inode of the dentry itself, is not part of the model.
\<close>

definition vfs_unlink :: "env \<Rightarrow> string \<Rightarrow> fs \<Rightarrow> int \<times> fs" where
  "vfs_unlink E p s =
     (if storage_error E P_unlink p s < 0 then (storage_error E P_unlink p s, s)
      else case files s p of
        None \<Rightarrow> (- ENOENT, s)
      | Some n \<Rightarrow>
          if n_kind n = Directory then (- EISDIR, s)
          else (0, s\<lparr>files := (files s)(p := None)\<rparr>))"

text \<open>
  Modelled from the spec: \<^verbatim>\<open>get_path_dentry\<close> is defined in another unit. It
  looks the path up on the underlying storage and returns the dentry of the object, or
  the error of the lookup when there is no such object.
\<close>

definition get_path_dentry :: "env \<Rightarrow> string \<Rightarrow> fs \<Rightarrow> int + string" where
  "get_path_dentry E p s =
     (if storage_error E P_lookup p s < 0 then Inl (storage_error E P_lookup p s)
      else if files s p = None then Inl (- ENOENT)
      else Inr p)"

text \<open>The kernel's \<^verbatim>\<open>vfs_lstat\<close>, of which only the returned status is used.\<close>

definition vfs_lstat :: "env \<Rightarrow> string \<Rightarrow> fs \<Rightarrow> int" where
  "vfs_lstat E p s =
     (if storage_error E P_lstat p s < 0 then storage_error E P_lstat p s
      else if files s p = None then - ENOENT
      else 0)"

subsection \<open>wh.c\<close>

text \<open>
  \<^verbatim>\<open>create_whiteout_worker\<close>. The attribute block is a local of which only
  \<open>ia_valid\<close>, \<open>ia_uid\<close> and \<open>ia_gid\<close> are assigned. On success the function returns
  with the file still open. On failure it saves the dentry of the file (taking a
  reference that it drops at the end), closes the file, and then hands
  \<^verbatim>\<open>vfs_unlink\<close> not the dentry it saved but \<^verbatim>\<open>fd->f_dentry\<close>, read through
  the file it has just released; the result of \<^verbatim>\<open>vfs_unlink\<close> is not looked at.
\<close>

definition root_owner :: iattr where
  "root_owner = \<lparr>ia_valid = {ATTR_UID, ATTR_GID}, ia_mode = 0, ia_uid = 0, ia_gid = 0\<rparr>"

definition create_whiteout_worker :: "env \<Rightarrow> string \<Rightarrow> fs \<Rightarrow> int \<times> fs" where
  "create_whiteout_worker E wh_path s =
     (case creat_worker E wh_path S_IRUSR s of
        (Inl e, s1) \<Rightarrow> (e, s1)
      | (Inr fd, s1) \<Rightarrow>
          (case f_dentry fd s1 of
             None \<Rightarrow> (- EFAULT, s1\<lparr>faulted := True\<rparr>)
           | Some d \<Rightarrow>
               let attr = root_owner;
                   (err, s2) = notify_change E d attr s1
               in if err = 0 then (err, s2)
                  else
                    let dentry = f_dentry fd s2;
                        s3 = filp_close fd s2
                    in (case f_dentry fd s3 of
                          None \<Rightarrow> (err, s3\<lparr>faulted := True\<rparr>)
                        | Some d' \<Rightarrow> (let (_, s4) = vfs_unlink E d' s3 in (err, s4)))))"

text \<open>
  \<^verbatim>\<open>create_whiteout(path, wh_path)\<close>: the returned triple is the status, the
  contents of the caller's buffer \<open>wh_path\<close> (\<open>None\<close> as long as nothing has been
  written to it) and the state. \<^verbatim>\<open>find_path\<close> is called with a null second
  argument.
\<close>

definition create_whiteout :: "env \<Rightarrow> string \<Rightarrow> fs \<Rightarrow> int \<times> string option \<times> fs" where
  "create_whiteout E path s =
     (case strrchr path CHR ''/'' of
        None \<Rightarrow> (- EINVAL, None, s)
      | Some tree_path \<Rightarrow>
          let (wh1, n) = snprintf_s PATH_MAX (read_write_branch E)
          in if n > int PATH_MAX then (- ENAMETOOLONG, Some wh1, s)
             else
               let wh2 = strncat wh1 path (tree_path + 1);
                   wh3 = strcat wh2 ''.wh.'';
                   wh4 = strcat wh3 (drop (tree_path + 1) path);
                   (err, _, s1) = find_path E path None s
               in if err < 0 then (err, Some wh4, s1)
                  else (let (r, s2) = create_whiteout_worker E wh4 s1 in (r, Some wh4, s2)))"

definition find_whiteout :: "env \<Rightarrow> string \<Rightarrow> fs \<Rightarrow> int \<times> string option" where
  "find_whiteout E path s =
     (case strrchr path CHR ''/'' of
        None \<Rightarrow> (- EINVAL, None)
      | Some tree_path \<Rightarrow>
          let (wh1, n) = snprintf_s PATH_MAX (read_write_branch E)
          in if n > int PATH_MAX then (- ENAMETOOLONG, Some wh1)
             else
               let wh2 = strncat wh1 path (tree_path + 1);
                   wh3 = strcat wh2 ''.wh.'';
                   wh4 = strcat wh3 (drop (tree_path + 1) path)
               in (vfs_lstat E wh4 s, Some wh4))"

definition hide_directory_contents :: "string \<Rightarrow> int" where
  "hide_directory_contents path = - EINVAL"

definition is_empty_dir :: "string \<Rightarrow> string \<Rightarrow> string \<Rightarrow> int" where
  "is_empty_dir path ro_path rw_path = - EINVAL"

text \<open>
  \<^verbatim>\<open>unlink_whiteout(path)\<close>: the buffer is a local; it is returned beside the
  status so that the path that was computed can be observed.
\<close>

definition unlink_whiteout :: "env \<Rightarrow> string \<Rightarrow> fs \<Rightarrow> int \<times> string option \<times> fs" where
  "unlink_whiteout E path s =
     (case strrchr path CHR ''/'' of
        None \<Rightarrow> (- EINVAL, None, s)
      | Some tree_path \<Rightarrow>
          let (wh1, n) = snprintf_s PATH_MAX (read_write_branch E)
          in if n > int PATH_MAX then (- ENAMETOOLONG, Some wh1, s)
             else
               let wh2 = strncat wh1 path (tree_path + 1);
                   wh3 = strcat wh2 ''.wh.'';
                   wh4 = strcat wh3 (drop (tree_path + 1) path)
               in (case get_path_dentry E wh4 s of
                     Inl e \<Rightarrow> (e, Some wh4, s)
                   | Inr dentry \<Rightarrow>
                       (let (err, s1) = vfs_unlink E dentry s in (err, Some wh4, s1))))"

text \<open>
  \<^verbatim>\<open>unlink_rw_file(path, rw_path, has_ro_sure)\<close>. The value returned by
  \<^verbatim>\<open>create_whiteout\<close> is dropped.
\<close>

definition unlink_rw_file :: "env \<Rightarrow> string \<Rightarrow> string \<Rightarrow> bool \<Rightarrow> fs \<Rightarrow> int \<times> fs" where
  "unlink_rw_file E path rw_path has_ro_sure s =
     (let has_ro =
            (if \<not> has_ro_sure \<and> fst (find_file E path {MUST_READ_ONLY} s) \<ge> 0 then True
             else if has_ro_sure then True
             else False);
          err = can_remove E path rw_path s
      in if err < 0 then (err, s)
         else (case get_path_dentry E rw_path s of
                 Inl e \<Rightarrow> (e, s)
               | Inr dentry \<Rightarrow>
                   (let (err, s1) = vfs_unlink E dentry s
                    in if err < 0 then (err, s1)
                       else if has_ro then
                         (let (_, _, s2) = create_whiteout E path s1 in (0, s2))
                       else (0, s1))))"

subsection \<open>Workers of the other units used by opts.c\<close>

text \<open>
  Modelled from the spec: \<^verbatim>\<open>make_rw_path\<close> is defined in another unit (the
  composition of a concrete path of section 4.1). It writes the root of the read-write
  branch followed by the virtual path and returns the length of the result, which its
  callers compare with \<^verbatim>\<open>PATH_MAX\<close>.
\<close>

definition make_rw_path :: "env \<Rightarrow> string \<Rightarrow> int \<times> string" where
  "make_rw_path E path =
     (int (length (read_write_branch E @ path)), read_write_branch E @ path)"

definition new_node :: "env \<Rightarrow> kind \<Rightarrow> int \<Rightarrow> fs \<Rightarrow> node" where
  "new_node E k mode s =
     \<lparr>n_kind = k, n_mode = mode, n_uid = fsuid E, n_gid = fsgid E, n_ino = next_ino s\<rparr>"

definition add_node :: "env \<Rightarrow> prim \<Rightarrow> string \<Rightarrow> kind \<Rightarrow> int \<Rightarrow> fs \<Rightarrow> int \<times> fs" where
  "add_node E pr p k mode s =
     (if storage_error E pr p s < 0 then (storage_error E pr p s, s)
      else if files s p \<noteq> None then (- EEXIST, s)
      else (0, s\<lparr>files := (files s)(p \<mapsto> new_node E k mode s),
                  next_ino := Suc (next_ino s)\<rparr>))"

text \<open>
  Modelled from the spec: \<^verbatim>\<open>symlink_worker\<close>, \<^verbatim>\<open>link_worker\<close>,
  \<^verbatim>\<open>mkdir_worker\<close>, \<^verbatim>\<open>mkfifo\<close> and \<^verbatim>\<open>mknod\<close> are defined in another
  unit. Each creates one object at a concrete path that must be free: a symbolic link
  with the given target text, a second name for the object of an existing path (the
  same inode), a directory, a FIFO, a node of the type the mode asks for.
\<close>

definition symlink_worker :: "env \<Rightarrow> string \<Rightarrow> string \<Rightarrow> fs \<Rightarrow> int \<times> fs" where
  "symlink_worker E target p s = add_node E P_symlink p (Symlink target) (S_IFLNK OR S_IRWXUGO) s"

definition link_worker :: "env \<Rightarrow> string \<Rightarrow> string \<Rightarrow> fs \<Rightarrow> int \<times> fs" where
  "link_worker E old p s =
     (if storage_error E P_link p s < 0 then (storage_error E P_link p s, s)
      else case files s old of
        None \<Rightarrow> (- ENOENT, s)
      | Some n \<Rightarrow>
          if n_kind n = Directory then (- EPERM, s)
          else if files s p \<noteq> None then (- EEXIST, s)
          else (0, s\<lparr>files := (files s)(p \<mapsto> n)\<rparr>))"

definition mkdir_worker :: "env \<Rightarrow> string \<Rightarrow> int \<Rightarrow> fs \<Rightarrow> int \<times> fs" where
  "mkdir_worker E p mode s = add_node E P_mkdir p Directory mode s"

definition mkfifo :: "env \<Rightarrow> string \<Rightarrow> int \<Rightarrow> fs \<Rightarrow> int \<times> fs" where
  "mkfifo E p mode s = add_node E P_mkfifo p Fifo mode s"

definition mknod :: "env \<Rightarrow> string \<Rightarrow> int \<Rightarrow> nat \<Rightarrow> fs \<Rightarrow> int \<times> fs" where
  "mknod E p mode rdev s =
     (if S_ISDIR mode then (- EPERM, s)
      else add_node E P_mknod p
             (if (mode AND S_IFMT) = 0 \<or> (mode AND S_IFMT) = S_IFREG then Regular else Special)
             mode s)"

text \<open>\<^verbatim>\<open>push_root\<close>: the calling identity becomes root until \<^verbatim>\<open>pop_root\<close>.\<close>

definition push_root :: "env \<Rightarrow> env" where
  "push_root E = E\<lparr>fsuid := 0, fsgid := 0\<rparr>"

subsection \<open>opts.c\<close>

text \<open>
  A dentry of the union is the list of the names from the root of the mount down to it;
  the inode of a directory is its number. The paths \<open>from\<close>, \<open>to\<close>, \<open>path\<close> and
  \<open>real_path\<close> are the buffers of the context and of the stack.
\<close>

definition pierrefs_link :: "env \<Rightarrow> string list \<Rightarrow> nat \<Rightarrow> string list \<Rightarrow> fs \<Rightarrow> int \<times> fs" where
  "pierrefs_link E old_dentry dir dentry s =
     (let (err, from) = get_relative_path E old_dentry
      in if err < 0 then (err, s)
         else
           let (origin, real_from) = find_file E from {} s
           in if origin < 0 then (origin, s)
              else
                let (err, to) = get_relative_path_for_file E dir dentry
                in if err < 0 then (err, s)
                   else
                     let (err, real_to) = find_file E to {} s
                     in if err \<ge> 0 then (- EEXIST, s)
                        else
                          let err = can_create E to real_to s
                          in if err < 0 then (err, s)
                             else
                               let (err, real_to, s1) = find_path E to (Some real_to) s
                               in if err < 0 then (err, s1)
                                  else if origin = READ_ONLY E then
                                    (let (err, s2) = symlink_worker E real_from real_to s1
                                     in if err < 0 then (err, s2)
                                        else (let (_, _, s3) = unlink_whiteout E to s2 in (0, s3)))
                                  else
                                    (let (n, real_to) = make_rw_path E to
                                     in if n > int PATH_MAX then (- ENAMETOOLONG, s1)
                                        else
                                          (let (err, s2) = link_worker E real_from real_to s1
                                           in if err < 0 then (err, s2)
                                              else (let (_, _, s3) = unlink_whiteout E to s2
                                                    in (0, s3)))))"

definition pierrefs_mkdir :: "env \<Rightarrow> nat \<Rightarrow> string list \<Rightarrow> int \<Rightarrow> fs \<Rightarrow> int \<times> fs" where
  "pierrefs_mkdir E dir dentry mode s =
     (let (err, path) = get_relative_path_for_file E dir dentry
      in if err < 0 then (err, s)
         else
           let (err, real_path) = find_file E path {} s
           in if err \<ge> 0 then (- EEXIST, s)
              else
                let (n, real_path) = make_rw_path E path
                in if n > int PATH_MAX then (- ENAMETOOLONG, s)
                   else
                     let err = can_create E path real_path s
                     in if err < 0 then (err, s)
                        else
                          let (err, real_path, s1) = find_path E path (Some real_path) s
                          in if err < 0 then (err, s1)
                             else
                               let mode = mode OR S_IFDIR;
                                   (err, s2) = mkdir_worker E real_path mode s1
                               in if err < 0 then (err, s2)
                                  else
                                    let err = hide_directory_contents path
                                    in if err < 0 then
                                         (case get_path_dentry E real_path s2 of
                                            Inl _ \<Rightarrow> (err, s2)
                                          | Inr d \<Rightarrow>
                                              (let (_, s3) = vfs_unlink (push_root E) d s2
                                               in (err, s3)))
                                       else (let (_, _, s3) = unlink_whiteout E path s2
                                             in (0, s3)))"

definition pierrefs_mknod :: "env \<Rightarrow> nat \<Rightarrow> string list \<Rightarrow> int \<Rightarrow> nat \<Rightarrow> fs \<Rightarrow> int \<times> fs" where
  "pierrefs_mknod E dir dentry mode rdev s =
     (let (err, path) = get_relative_path_for_file E dir dentry
      in if err < 0 then (err, s)
         else
           let (err, real_path) = find_file E path {} s
           in if err \<ge> 0 then (- EEXIST, s)
              else
                let (err, real_path, s1) = find_path E path (Some real_path) s
                in if err < 0 then (err, s1)
                   else
                     let (err, s2) =
                           (if S_ISFIFO mode then mkfifo E real_path mode s1
                            else mknod E real_path mode rdev s1)
                     in if err < 0 then (err, s2)
                        else (let (_, _, s3) = unlink_whiteout E path s2 in (0, s3)))"

text \<open>
  \<^verbatim>\<open>pierrefs_setattr\<close> hands the dentry of the request itself, a dentry of the
  union, to \<^verbatim>\<open>notify_change\<close>; \<open>real_path\<close>, where \<^verbatim>\<open>find_file\<close> found the
  object, is not used on that branch. The status of the call is the parameter
  \<open>dentry_notify_change\<close> of the environment.
\<close>

definition pierrefs_setattr :: "env \<Rightarrow> string list \<Rightarrow> iattr \<Rightarrow> fs \<Rightarrow> int \<times> fs" where
  "pierrefs_setattr E dentry attr s =
     (let (err, path) = get_relative_path E dentry
      in if err \<noteq> 0 then (err, s)
         else
           let (err, real_path) = find_file E path {} s
           in if err < 0 then (err, s)
              else if err = READ_WRITE E \<or> err = READ_WRITE_COPYUP E then
                (dentry_notify_change E dentry attr, s)
              else set_me_worker E path real_path attr s)"

definition pierrefs_symlink :: "env \<Rightarrow> nat \<Rightarrow> string list \<Rightarrow> string \<Rightarrow> fs \<Rightarrow> int \<times> fs" where
  "pierrefs_symlink E dir dentry symname s =
     (let (err, to) = get_relative_path_for_file E dir dentry
      in if err < 0 then (err, s)
         else
           let (err, real_to) = find_file E to {} s
           in if err \<ge> 0 then (- EEXIST, s)
              else
                let (n, real_to) = make_rw_path E to
                in if n > int PATH_MAX then (- ENAMETOOLONG, s)
                   else
                     let err = can_create E to real_to s
                     in if err < 0 then (err, s)
                        else
                          let (err, real_to, s1) = find_path E to (Some real_to) s
                          in if err < 0 then (err, s1)
                             else
                               let (err, s2) = symlink_worker E symname real_to s1
                               in if err < 0 then (err, s2)
                                  else (let (_, _, s3) = unlink_whiteout E to s2 in (0, s3)))"

subsection \<open>An example mount\<close>

text \<open>
  A mount of \<^verbatim>\<open>/ro\<close> and \<^verbatim>\<open>/rw\<close> on a storage that refuses nothing, used to
  run the operations on concrete requests. Its helpers follow the specification: the
  relative path of a dentry is its names joined by separators, the resolution of a path
  probes the whiteout, then the read-write branch, then the read-only branch.
\<close>

definition relative_path :: "string list \<Rightarrow> string" where
  "relative_path d = concat (map (\<lambda>n. CHR ''/'' # n) d)"

definition plain_context :: env where
  "plain_context =
     \<lparr>read_only_branch = ''/ro'', read_write_branch = ''/rw'',
      fsuid = 1000, fsgid = 1000,
      READ_ONLY = 0, READ_WRITE = 1, READ_WRITE_COPYUP = 2,
      storage_error = (\<lambda>_ _ _. 0),
      find_file = (\<lambda>_ _ _. (- ENOENT, [])),
      find_path = (\<lambda>path _ s. (0, ''/rw'' @ path, s)),
      can_create = (\<lambda>_ _ _. 0),
      can_remove = (\<lambda>_ _ _. 0),
      get_relative_path = (\<lambda>d. (0, relative_path d)),
      get_relative_path_for_file = (\<lambda>_ d. (0, relative_path d)),
      set_me_worker = (\<lambda>_ _ _ s. (0, s)),
      dentry_notify_change = (\<lambda>_ _. 0)\<rparr>"

definition resolve :: "env \<Rightarrow> string \<Rightarrow> find_flag set \<Rightarrow> fs \<Rightarrow> int \<times> string" where
  "resolve E path flags s =
     (if fst (find_whiteout E path s) \<ge> 0 then (- ENOENT, read_write_branch E @ path)
      else if MUST_READ_ONLY \<notin> flags \<and> vfs_lstat E (read_write_branch E @ path) s \<ge> 0
        then (READ_WRITE E, read_write_branch E @ path)
      else if vfs_lstat E (read_only_branch E @ path) s \<ge> 0
        then (READ_ONLY E, read_only_branch E @ path)
      else (- ENOENT, read_only_branch E @ path))"

definition example_context :: env where
  "example_context =
     plain_context
       \<lparr>find_file := resolve plain_context,
        set_me_worker := (\<lambda>path real_path attr s.
          add_node plain_context P_creat (''/rw/.me.'' @ drop 1 path) Regular (ia_mode attr)
            s)\<rparr>"

text \<open>
  The same mount on a storage that refuses the primitives of a set with
  \<^verbatim>\<open>EPERM\<close>, as it does to a caller that has no right to them.
\<close>

definition refusing_context :: "prim set \<Rightarrow> env" where
  "refusing_context ps =
     example_context\<lparr>storage_error := (\<lambda>p _ _. if p \<in> ps then - EPERM else 0)\<rparr>"

definition plain_file :: "nat \<Rightarrow> node" where
  "plain_file i = \<lparr>n_kind = Regular, n_mode = 420, n_uid = 1000, n_gid = 1000, n_ino = i\<rparr>"

text \<open>A request to change the mode to \<^verbatim>\<open>0600\<close>.\<close>

definition chmod_600 :: iattr where
  "chmod_600 = \<lparr>ia_valid = {ATTR_MODE}, ia_mode = 384, ia_uid = 0, ia_gid = 0\<rparr>"

text \<open>A state of the branches at rest: no file is open and nothing has faulted.\<close>

definition at_rest :: "(string \<rightharpoonup> node) \<Rightarrow> nat \<Rightarrow> fs" where
  "at_rest fl i =
     \<lparr>files = fl, next_ino = i, opened = Map.empty, next_fd = 0, faulted = False\<rparr>"

definition empty_fs :: fs where
  "empty_fs = at_rest Map.empty 1"

text \<open>
  The example mount after the creation of the whiteout of \<^verbatim>\<open>/dir/file.txt\<close> on
  empty branches: the marker is there and the file of the marker is still open.
\<close>

definition marked_fs :: fs where
  "marked_fs =
     \<lparr>files = [''/rw/dir/.wh.file.txt'' \<mapsto>
                \<lparr>n_kind = Regular, n_mode = S_IRUSR, n_uid = 0, n_gid = 0, n_ino = 1\<rparr>],
      next_ino = 2, opened = [0 \<mapsto> ''/rw/dir/.wh.file.txt''], next_fd = 1,
      faulted = False\<rparr>"

text \<open>
  States of the example mount: \<^verbatim>\<open>/file.txt\<close> of the read-only branch hidden by
  its whiteout, \<^verbatim>\<open>/file.txt\<close> present on the read-only branch only, on the
  read-write branch only, and on both branches.
\<close>

definition hidden_fs :: fs where
  "hidden_fs =
     at_rest [''/ro/file.txt'' \<mapsto> plain_file 1,
              ''/rw/.wh.file.txt'' \<mapsto>
                \<lparr>n_kind = Regular, n_mode = S_IRUSR, n_uid = 0, n_gid = 0, n_ino = 2\<rparr>] 3"

text \<open>
  The same with a directory at the path of the marker, as a \<^verbatim>\<open>pierrefs_mkdir\<close> of
  \<^verbatim>\<open>/.wh.file.txt\<close> leaves it.
\<close>

definition blocked_fs :: fs where
  "blocked_fs =
     at_rest [''/ro/file.txt'' \<mapsto> plain_file 1,
              ''/rw/.wh.file.txt'' \<mapsto>
                \<lparr>n_kind = Directory, n_mode = 16877, n_uid = 1000, n_gid = 1000,
                 n_ino = 2\<rparr>] 3"

definition ro_only_fs :: fs where
  "ro_only_fs = at_rest [''/ro/file.txt'' \<mapsto> plain_file 1] 2"

definition fresh_fs :: fs where
  "fresh_fs = at_rest [''/rw/file.txt'' \<mapsto> plain_file 1] 1"

definition copied_fs :: fs where
  "copied_fs =
     at_rest [''/ro/file.txt'' \<mapsto> plain_file 1, ''/rw/file.txt'' \<mapsto> plain_file 2] 3"

text \<open>
  The example mount after \<^verbatim>\<open>/file.txt\<close>, present on both branches, has been
  deleted: the object of the read-write branch is gone, the marker is there and the file
  of the marker is still open.
\<close>

definition whited_fs :: fs where
  "whited_fs =
     \<lparr>files = [''/ro/file.txt'' \<mapsto> plain_file 1,
               ''/rw/.wh.file.txt'' \<mapsto>
                 \<lparr>n_kind = Regular, n_mode = S_IRUSR, n_uid = 0, n_gid = 0, n_ino = 3\<rparr>],
      next_ino = 4, opened = [0 \<mapsto> ''/rw/.wh.file.txt''], next_fd = 1,
      faulted = False\<rparr>"

text \<open>
  A virtual path of sixteen directories and a leaf, \<open>4092\<close> characters long: with the
  root \<^verbatim>\<open>/rw\<close> its concrete path on the read-write branch has \<open>4095\<close> characters,
  the longest that fits a buffer of \<^verbatim>\<open>PATH_MAX\<close> bytes.
\<close>

definition deep_path :: string where
  "deep_path = concat (replicate 16 (CHR ''/'' # replicate 254 CHR ''a'')) @ ''/bbbbbbbbbbb''"

section \<open>Properties\<close>

subsection \<open>The last separator\<close>

lemma strrchr_None: "strrchr s c = None \<longleftrightarrow> c \<notin> set s"
  by (induction s) (auto split: option.splits)

lemma strrchr_append_last:
  "c \<notin> set l \<Longrightarrow> strrchr (d @ c # l) c = Some (length d)"
  by (induction d) (auto simp: strrchr_None split: option.splits)

lemma strrchr_Some:
  "strrchr s c = Some i \<Longrightarrow> i < length s \<and> s ! i = c \<and> c \<notin> set (drop (Suc i) s)"
proof (induction s arbitrary: i)
  case Nil
  then show ?case by simp
next
  case (Cons x xs)
  show ?case
  proof (cases "strrchr xs c")
    case None
    with Cons.prems show ?thesis
      by (auto simp: strrchr_None split: if_splits)
  next
    case (Some j)
    with Cons show ?thesis by auto
  qed
qed

subsection \<open>The example mount\<close>

lemma example_context_simps:
  "read_write_branch example_context = ''/rw''"
  "read_only_branch example_context = ''/ro''"
  "find_path example_context = (\<lambda>path _ s. (0, ''/rw'' @ path, s))"
  "storage_error example_context = (\<lambda>_ _ _. 0)"
  "fsuid example_context = 1000"
  "fsgid example_context = 1000"
  by (simp_all add: example_context_def plain_context_def)

lemma refusing_context_simps:
  "read_write_branch (refusing_context ps) = ''/rw''"
  "read_only_branch (refusing_context ps) = ''/ro''"
  "find_path (refusing_context ps) = (\<lambda>path _ s. (0, ''/rw'' @ path, s))"
  "storage_error (refusing_context ps) = (\<lambda>p _ _. if p \<in> ps then - EPERM else 0)"
  "fsuid (refusing_context ps) = 1000"
  "fsgid (refusing_context ps) = 1000"
  by (simp_all add: refusing_context_def example_context_def plain_context_def)

lemma plain_context_simps:
  "read_write_branch plain_context = ''/rw''"
  "read_only_branch plain_context = ''/ro''"
  "storage_error plain_context = (\<lambda>_ _ _. 0)"
  "READ_ONLY plain_context = 0"
  "READ_WRITE plain_context = 1"
  "READ_WRITE_COPYUP plain_context = 2"
  "fsuid plain_context = 1000"
  "fsgid plain_context = 1000"
  by (simp_all add: plain_context_def)

lemma refusing_context_helpers:
  "find_file (refusing_context ps) = resolve plain_context"
  "can_remove (refusing_context ps) = (\<lambda>_ _ _. 0)"
  "can_create (refusing_context ps) = (\<lambda>_ _ _. 0)"
  "get_relative_path (refusing_context ps) = (\<lambda>d. (0, relative_path d))"
  "get_relative_path_for_file (refusing_context ps) = (\<lambda>_ d. (0, relative_path d))"
  "READ_ONLY (refusing_context ps) = 0"
  "READ_WRITE (refusing_context ps) = 1"
  "READ_WRITE_COPYUP (refusing_context ps) = 2"
  by (simp_all add: refusing_context_def example_context_def plain_context_def)

lemma example_context_helpers:
  "find_file example_context = resolve plain_context"
  "can_remove example_context = (\<lambda>_ _ _. 0)"
  "can_create example_context = (\<lambda>_ _ _. 0)"
  "get_relative_path example_context = (\<lambda>d. (0, relative_path d))"
  "get_relative_path_for_file example_context = (\<lambda>_ d. (0, relative_path d))"
  "READ_ONLY example_context = 0"
  "READ_WRITE example_context = 1"
  "READ_WRITE_COPYUP example_context = 2"
  "dentry_notify_change example_context = (\<lambda>_ _. 0)"
  "set_me_worker example_context = (\<lambda>path real_path attr s.
     add_node plain_context P_creat (''/rw/.me.'' @ drop 1 path) Regular (ia_mode attr) s)"
  by (simp_all add: example_context_def plain_context_def)

lemma relative_path_file_txt: "relative_path [''file.txt''] = ''/file.txt''"
  by (simp add: relative_path_def)

subsection \<open>The path of the whiteout\<close>

lemma create_whiteout_split:
  assumes "CHR ''/'' \<notin> set l" and "length (read_write_branch E) < PATH_MAX"
  shows "create_whiteout E (d @ CHR ''/'' # l) s =
    (let wh = read_write_branch E @ d @ ''/.wh.'' @ l;
         (err, _, s1) = find_path E (d @ CHR ''/'' # l) None s
     in if err < 0 then (err, Some wh, s1)
        else (let (r, s2) = create_whiteout_worker E wh s1 in (r, Some wh, s2)))"
  using assms
  by (simp add: create_whiteout_def strrchr_append_last snprintf_s_def strncat_def
      strcat_def Let_def split: prod.splits)

lemma find_whiteout_split:
  assumes "CHR ''/'' \<notin> set l" and "length (read_write_branch E) < PATH_MAX"
  shows "find_whiteout E (d @ CHR ''/'' # l) s =
    (let wh = read_write_branch E @ d @ ''/.wh.'' @ l in (vfs_lstat E wh s, Some wh))"
  using assms
  by (simp add: find_whiteout_def strrchr_append_last snprintf_s_def strncat_def
      strcat_def Let_def split: prod.splits)

lemma unlink_whiteout_split:
  assumes "CHR ''/'' \<notin> set l" and "length (read_write_branch E) < PATH_MAX"
  shows "unlink_whiteout E (d @ CHR ''/'' # l) s =
    (let wh = read_write_branch E @ d @ ''/.wh.'' @ l
     in case get_path_dentry E wh s of
          Inl e \<Rightarrow> (e, Some wh, s)
        | Inr dentry \<Rightarrow> (let (err, s1) = vfs_unlink E dentry s in (err, Some wh, s1)))"
  using assms
  by (simp add: unlink_whiteout_def strrchr_append_last snprintf_s_def strncat_def
      strcat_def Let_def split: prod.splits sum.splits)

lemma resolve_leaf:
  assumes "CHR ''/'' \<notin> set l"
  shows "resolve plain_context (CHR ''/'' # l) fl s =
     (if files s (''/rw/.wh.'' @ l) \<noteq> None then (- ENOENT, ''/rw/'' @ l)
      else if MUST_READ_ONLY \<notin> fl \<and> files s (''/rw/'' @ l) \<noteq> None then (1, ''/rw/'' @ l)
      else if files s (''/ro/'' @ l) \<noteq> None then (0, ''/ro/'' @ l)
      else (- ENOENT, ''/ro/'' @ l))"
proof -
  have "find_whiteout plain_context ([] @ CHR ''/'' # l) s =
    (let wh = read_write_branch plain_context @ [] @ ''/.wh.'' @ l
     in (vfs_lstat plain_context wh s, Some wh))"
    using assms by (intro find_whiteout_split) (simp_all add: plain_context_simps PATH_MAX_def)
  then show ?thesis
    by (simp add: resolve_def vfs_lstat_def Let_def plain_context_simps ENOENT_def)
qed

lemma create_whiteout_worker_marker:
  assumes "create_whiteout_worker E wh s = (0, s')"
  shows "files s' = (files s)(wh \<mapsto> the (files s' wh)) \<and> n_kind (the (files s' wh)) = Regular
       \<and> n_uid (the (files s' wh)) = 0 \<and> n_gid (the (files s' wh)) = 0"
  using assms
  by (auto simp: create_whiteout_worker_def creat_worker_def open_file_def f_dentry_def
      notify_change_def apply_iattr_def root_owner_def Let_def EEXIST_def EFAULT_def
      split: prod.splits sum.splits if_splits option.splits)

lemma create_whiteout_worker_success:
  assumes "create_whiteout_worker E wh s = (0, s')"
  shows "\<exists>n. files s' = (files s)(wh \<mapsto> n) \<and> n_kind n = Regular
             \<and> n_uid n = 0 \<and> n_gid n = 0"
  using create_whiteout_worker_marker [OF assms] by blast

lemma short_root:
  assumes "length (read_write_branch E @ D @ ''/'' @ ''.wh.'' @ L) < PATH_MAX"
  shows "length (read_write_branch E) < PATH_MAX"
  using assms by simp

lemma create_whiteout_at:
  assumes "CHR ''/'' \<notin> set L"
    and "length (read_write_branch E @ D @ ''/'' @ ''.wh.'' @ L) < PATH_MAX"
  shows "fst (snd (create_whiteout E (D @ ''/'' @ L) s))
           = Some (read_write_branch E @ D @ ''/'' @ ''.wh.'' @ L)"
    and "fst (create_whiteout E (D @ ''/'' @ L) s) = 0 \<Longrightarrow>
         \<exists>n. files (snd (snd (create_whiteout E (D @ ''/'' @ L) s)))
                = (files (snd (snd (find_path E (D @ ''/'' @ L) None s))))
                    (read_write_branch E @ D @ ''/'' @ ''.wh.'' @ L \<mapsto> n)
              \<and> n_kind n = Regular \<and> n_uid n = 0 \<and> n_gid n = 0"
proof -
  define wh where "wh = read_write_branch E @ D @ ''/.wh.'' @ L"
  obtain err rp s1 where f: "find_path E (D @ ''/'' @ L) None s = (err, rp, s1)"
    by (cases "find_path E (D @ ''/'' @ L) None s")
  obtain r s2 where w: "create_whiteout_worker E wh s1 = (r, s2)"
    by (cases "create_whiteout_worker E wh s1")
  have eq: "create_whiteout E (D @ ''/'' @ L) s
              = (if err < 0 then (err, Some wh, s1) else (r, Some wh, s2))"
    using create_whiteout_split [OF assms(1) short_root [OF assms(2)], of D s] f w
    by (simp add: wh_def Let_def)
  show "fst (snd (create_whiteout E (D @ ''/'' @ L) s))
           = Some (read_write_branch E @ D @ ''/'' @ ''.wh.'' @ L)"
    unfolding eq by (simp add: wh_def)
  assume "fst (create_whiteout E (D @ ''/'' @ L) s) = 0"
  with eq have "\<not> err < 0" and "r = 0"
    by (auto split: if_splits)
  with w create_whiteout_worker_success [of E wh s1 s2]
  have "\<exists>n. files s2 = (files s1)(wh \<mapsto> n) \<and> n_kind n = Regular
             \<and> n_uid n = 0 \<and> n_gid n = 0"
    by simp
  with \<open>\<not> err < 0\<close> show
    "\<exists>n. files (snd (snd (create_whiteout E (D @ ''/'' @ L) s)))
                = (files (snd (snd (find_path E (D @ ''/'' @ L) None s))))
                    (read_write_branch E @ D @ ''/'' @ ''.wh.'' @ L \<mapsto> n)
              \<and> n_kind n = Regular \<and> n_uid n = 0 \<and> n_gid n = 0"
    unfolding eq f by (simp add: wh_def)
qed

lemma find_whiteout_at:
  assumes "CHR ''/'' \<notin> set L"
    and "length (read_write_branch E @ D @ ''/'' @ ''.wh.'' @ L) < PATH_MAX"
  shows "find_whiteout E (D @ ''/'' @ L) s
           = (vfs_lstat E (read_write_branch E @ D @ ''/'' @ ''.wh.'' @ L) s,
              Some (read_write_branch E @ D @ ''/'' @ ''.wh.'' @ L))"
    and "fst (find_whiteout E (D @ ''/'' @ L) s) = 0 \<Longrightarrow>
         files s (read_write_branch E @ D @ ''/'' @ ''.wh.'' @ L) \<noteq> None"
    and "0 \<le> storage_error E P_lstat (read_write_branch E @ D @ ''/'' @ ''.wh.'' @ L) s \<Longrightarrow>
         files s (read_write_branch E @ D @ ''/'' @ ''.wh.'' @ L) \<noteq> None \<Longrightarrow>
         fst (find_whiteout E (D @ ''/'' @ L) s) = 0"
  using find_whiteout_split [OF assms(1) short_root [OF assms(2)], of D s]
  by (auto simp: Let_def vfs_lstat_def ENOENT_def split: if_splits)

lemma unlink_whiteout_at:
  assumes "CHR ''/'' \<notin> set L"
    and "length (read_write_branch E @ D @ ''/'' @ ''.wh.'' @ L) < PATH_MAX"
  shows "fst (snd (unlink_whiteout E (D @ ''/'' @ L) s))
           = Some (read_write_branch E @ D @ ''/'' @ ''.wh.'' @ L)"
    and "fst (unlink_whiteout E (D @ ''/'' @ L) s) = 0 \<Longrightarrow>
         files s (read_write_branch E @ D @ ''/'' @ ''.wh.'' @ L) \<noteq> None
         \<and> snd (snd (unlink_whiteout E (D @ ''/'' @ L) s))
             = s\<lparr>files := (files s)(read_write_branch E @ D @ ''/'' @ ''.wh.'' @ L := None)\<rparr>"
  using unlink_whiteout_split [OF assms(1) short_root [OF assms(2)], of D s]
  by (auto simp: Let_def get_path_dentry_def vfs_unlink_def ENOENT_def EISDIR_def
      split: if_splits option.splits sum.splits prod.splits)

text \<open>
  C8. For a virtual path made of a parent directory \<open>D\<close>, a separator and a leaf name
  \<open>L\<close>, whose marker path fits the buffer, the marker path is the root of the read-write
  branch, then \<open>D\<close> with its separator, then the token \<^verbatim>\<open>.wh.\<close>, then \<open>L\<close>:
  \<^verbatim>\<open>create_whiteout\<close>, \<^verbatim>\<open>find_whiteout\<close> and \<^verbatim>\<open>unlink_whiteout\<close> all
  compute this path, a creation that succeeds adds the marker, a regular file of root,
  at this path and changes no other object, the lookup succeeds exactly when there is an
  object at this path (on a storage that does not refuse the lookup), and a removal that
  succeeds removes the object at this path and nothing else.
\<close>

theorem whiteout_path_exact:
  assumes "CHR ''/'' \<notin> set L"
    and "length (read_write_branch E @ D @ ''/'' @ ''.wh.'' @ L) < PATH_MAX"
  shows "fst (snd (create_whiteout E (D @ ''/'' @ L) s))
           = Some (read_write_branch E @ D @ ''/'' @ ''.wh.'' @ L)
       \<and> (fst (create_whiteout E (D @ ''/'' @ L) s) = 0
          \<longrightarrow> (\<exists>n. files (snd (snd (create_whiteout E (D @ ''/'' @ L) s)))
                        = (files (snd (snd (find_path E (D @ ''/'' @ L) None s))))
                            (read_write_branch E @ D @ ''/'' @ ''.wh.'' @ L \<mapsto> n)
                   \<and> n_kind n = Regular \<and> n_uid n = 0 \<and> n_gid n = 0))
       \<and> find_whiteout E (D @ ''/'' @ L) s
           = (vfs_lstat E (read_write_branch E @ D @ ''/'' @ ''.wh.'' @ L) s,
              Some (read_write_branch E @ D @ ''/'' @ ''.wh.'' @ L))
       \<and> (fst (find_whiteout E (D @ ''/'' @ L) s) = 0
          \<longrightarrow> files s (read_write_branch E @ D @ ''/'' @ ''.wh.'' @ L) \<noteq> None)
       \<and> (0 \<le> storage_error E P_lstat (read_write_branch E @ D @ ''/'' @ ''.wh.'' @ L) s
            \<and> files s (read_write_branch E @ D @ ''/'' @ ''.wh.'' @ L) \<noteq> None
          \<longrightarrow> fst (find_whiteout E (D @ ''/'' @ L) s) = 0)
       \<and> fst (snd (unlink_whiteout E (D @ ''/'' @ L) s))
           = Some (read_write_branch E @ D @ ''/'' @ ''.wh.'' @ L)
       \<and> (fst (unlink_whiteout E (D @ ''/'' @ L) s) = 0
          \<longrightarrow> files s (read_write_branch E @ D @ ''/'' @ ''.wh.'' @ L) \<noteq> None
            \<and> snd (snd (unlink_whiteout E (D @ ''/'' @ L) s))
                = s\<lparr>files := (files s)
                      (read_write_branch E @ D @ ''/'' @ ''.wh.'' @ L := None)\<rparr>)"
  using create_whiteout_at [OF assms, of s] find_whiteout_at [OF assms, of s]
        unlink_whiteout_at [OF assms, of s]
  by blast

lemma create_whiteout_dir_file:
  "create_whiteout example_context ''/dir/file.txt'' empty_fs
     = (0, Some ''/rw/dir/.wh.file.txt'', marked_fs)"
  by (simp add: create_whiteout_def create_whiteout_worker_def creat_worker_def open_file_def
      f_dentry_def notify_change_def apply_iattr_def root_owner_def snprintf_s_def
      strncat_def strcat_def Let_def example_context_simps empty_fs_def at_rest_def
      marked_fs_def PATH_MAX_def)

theorem whiteout_path_exact_witness:
  "CHR ''/'' \<notin> set ''file.txt''
   \<and> length (read_write_branch example_context @ ''/dir'' @ ''/'' @ ''.wh.'' @ ''file.txt'')
       < PATH_MAX
   \<and> create_whiteout example_context ''/dir/file.txt'' empty_fs
       = (0, Some ''/rw/dir/.wh.file.txt'', marked_fs)
   \<and> files marked_fs ''/rw/dir/.wh.file.txt''
       = Some \<lparr>n_kind = Regular, n_mode = S_IRUSR, n_uid = 0, n_gid = 0, n_ino = 1\<rparr>
   \<and> dom (files marked_fs) = {''/rw/dir/.wh.file.txt''}
   \<and> find_whiteout example_context ''/dir/file.txt'' empty_fs
       = (- ENOENT, Some ''/rw/dir/.wh.file.txt'')
   \<and> 0 \<le> storage_error example_context P_lstat ''/rw/dir/.wh.file.txt'' marked_fs
   \<and> find_whiteout example_context ''/dir/file.txt'' marked_fs
       = (0, Some ''/rw/dir/.wh.file.txt'')
   \<and> unlink_whiteout example_context ''/dir/file.txt'' marked_fs
       = (0, Some ''/rw/dir/.wh.file.txt'',
          marked_fs\<lparr>files := (files marked_fs)(''/rw/dir/.wh.file.txt'' := None)\<rparr>)"
proof -
  have l: "CHR ''/'' \<notin> set ''file.txt''"
    by simp
  have r: "length (read_write_branch example_context @ ''/dir'' @ ''/'' @ ''.wh.'' @ ''file.txt'')
             < PATH_MAX"
    by (simp add: example_context_simps PATH_MAX_def)
  have m: "files marked_fs ''/rw/dir/.wh.file.txt''
       = Some \<lparr>n_kind = Regular, n_mode = S_IRUSR, n_uid = 0, n_gid = 0, n_ino = 1\<rparr>"
    "dom (files marked_fs) = {''/rw/dir/.wh.file.txt''}"
    "files empty_fs ''/rw/dir/.wh.file.txt'' = None"
    by (simp_all add: marked_fs_def empty_fs_def at_rest_def)
  have t: "0 \<le> storage_error example_context P_lstat ''/rw/dir/.wh.file.txt'' marked_fs"
    by (simp add: example_context_simps)
  have u: "fst (unlink_whiteout example_context ''/dir/file.txt'' marked_fs) = 0"
    using m(1)
    by (simp add: unlink_whiteout_def get_path_dentry_def vfs_unlink_def snprintf_s_def
        strncat_def strcat_def Let_def example_context_simps PATH_MAX_def)
  have v: "vfs_lstat example_context ''/rw/dir/.wh.file.txt'' empty_fs = - ENOENT"
    "vfs_lstat example_context ''/rw/dir/.wh.file.txt'' marked_fs = 0"
    using m by (simp_all add: vfs_lstat_def example_context_simps)
  from whiteout_path_exact [OF l r, of empty_fs] whiteout_path_exact [OF l r, of marked_fs]
    u v
  have "find_whiteout example_context ''/dir/file.txt'' empty_fs
          = (- ENOENT, Some ''/rw/dir/.wh.file.txt'')"
    and "find_whiteout example_context ''/dir/file.txt'' marked_fs
          = (0, Some ''/rw/dir/.wh.file.txt'')"
    and "unlink_whiteout example_context ''/dir/file.txt'' marked_fs
          = (0, Some ''/rw/dir/.wh.file.txt'',
             marked_fs\<lparr>files := (files marked_fs)(''/rw/dir/.wh.file.txt'' := None)\<rparr>)"
    by (simp_all add: example_context_simps prod_eq_iff)
  with l r m t create_whiteout_dir_file show ?thesis
    by simp
qed

subsection \<open>The length of the whiteout path\<close>

lemma deep_dir_length:
  "length (concat (replicate 16 (CHR ''/'' # replicate 254 CHR ''a''))) = 4080"
  by (simp add: length_concat sum_list_replicate)

lemma deep_path_split:
  "deep_path
     = concat (replicate 16 (CHR ''/'' # replicate 254 CHR ''a'')) @ CHR ''/'' # ''bbbbbbbbbbb''"
  by (simp add: deep_path_def)

lemma create_whiteout_deep_path:
  "create_whiteout example_context deep_path empty_fs =
    (let wh = read_write_branch example_context
                @ concat (replicate 16 (CHR ''/'' # replicate 254 CHR ''a''))
                @ ''/.wh.'' @ ''bbbbbbbbbbb'';
         (err, _, s1) = find_path example_context deep_path None empty_fs
     in if err < 0 then (err, Some wh, s1)
        else (let (r, s2) = create_whiteout_worker example_context wh s1
              in (r, Some wh, s2)))"
proof -
  have "CHR ''/'' \<notin> set ''bbbbbbbbbbb''"
    by simp
  moreover have "length (read_write_branch example_context) < PATH_MAX"
    by (simp add: example_context_simps PATH_MAX_def)
  ultimately show ?thesis
    unfolding deep_path_split by (rule create_whiteout_split)
qed

text \<open>
  C9. No concrete path longer than \<^verbatim>\<open>PATH_MAX\<close> is written into a path buffer.
  The code checks the length of the branch root alone: on the example mount, for the
  whiteout of \<open>deep_path\<close>, whose concrete path fits, \<^verbatim>\<open>create_whiteout\<close> does not
  fail and leaves \<open>4099\<close> characters in a buffer of \<open>4096\<close> bytes.
\<close>

theorem create_whiteout_overflow:
  "length (read_write_branch example_context @ deep_path) < PATH_MAX
   \<and> fst (create_whiteout example_context deep_path empty_fs) = 0
   \<and> map_option length (fst (snd (create_whiteout example_context deep_path empty_fs)))
       = Some 4099
   \<and> PATH_MAX < 4099"
  unfolding create_whiteout_deep_path
  by (simp add: example_context_simps Let_def deep_dir_length deep_path_def PATH_MAX_def
      create_whiteout_worker_def creat_worker_def open_file_def f_dentry_def
      notify_change_def root_owner_def empty_fs_def at_rest_def split: prod.splits)

subsection \<open>The owner of a whiteout\<close>

lemma create_whiteout_success:
  assumes "create_whiteout E path s = (0, w, s')"
  shows "\<exists>wh n. w = Some wh \<and> files s' wh = Some n \<and> n_uid n = 0 \<and> n_gid n = 0"
proof -
  from assms obtain wh s1 where "w = Some wh" and "create_whiteout_worker E wh s1 = (0, s')"
    by (auto simp: create_whiteout_def Let_def EINVAL_def ENAMETOOLONG_def
        split: option.splits prod.splits if_splits)
  then show ?thesis
    using create_whiteout_worker_success [of E wh s1 s'] by auto
qed

lemma creat_worker_opened:
  assumes "creat_worker E wh mode s = (Inr fd, s1)"
  shows "f_dentry fd s1 = Some wh \<and> files s1 wh \<noteq> None"
  using assms
  by (auto simp: creat_worker_def open_file_def f_dentry_def split: if_splits option.splits)

lemma notify_change_failed:
  assumes "fst (notify_change E p a s) \<noteq> 0"
  shows "snd (notify_change E p a s) = s"
  using assms
  by (auto simp: notify_change_def split: if_splits option.splits)

lemma create_whiteout_worker_failed_chown:
  assumes "creat_worker E wh S_IRUSR s = (Inr fd, s1)"
    and "fst (notify_change E wh root_owner s1) \<noteq> 0"
  shows "create_whiteout_worker E wh s
           = (fst (notify_change E wh root_owner s1), (filp_close fd s1)\<lparr>faulted := True\<rparr>)"
proof -
  obtain err s2 where n: "notify_change E wh root_owner s1 = (err, s2)"
    by (cases "notify_change E wh root_owner s1")
  with assms(2) notify_change_failed [of E wh root_owner s1] have "err \<noteq> 0" and "s2 = s1"
    by simp_all
  with assms(1) creat_worker_opened [OF assms(1)] n show ?thesis
    by (simp add: create_whiteout_worker_def Let_def f_dentry_def filp_close_def)
qed

text \<open>
  C1. When the change of owner fails, the marker just created is deleted before the
  error is returned. The code does not do that: it closes the file and then reads the
  dentry to unlink through the file it has released. Whenever the marker was created or
  opened and \<^verbatim>\<open>notify_change\<close> fails, \<^verbatim>\<open>create_whiteout_worker\<close> faults at
  that read with the error of the change of owner in hand, and the objects of the
  branches are as \<^verbatim>\<open>creat_worker\<close> left them: the marker is still there.
\<close>

theorem create_whiteout_worker_keeps_marker:
  "creat_worker E wh S_IRUSR s = (Inr fd, s1) \<and> fst (notify_change E wh root_owner s1) \<noteq> 0
   \<longrightarrow> fst (create_whiteout_worker E wh s) = fst (notify_change E wh root_owner s1)
     \<and> faulted (snd (create_whiteout_worker E wh s))
     \<and> files (snd (create_whiteout_worker E wh s)) = files s1
     \<and> files s1 wh \<noteq> None"
proof
  assume a: "creat_worker E wh S_IRUSR s = (Inr fd, s1)
             \<and> fst (notify_change E wh root_owner s1) \<noteq> 0"
  then have "create_whiteout_worker E wh s
           = (fst (notify_change E wh root_owner s1), (filp_close fd s1)\<lparr>faulted := True\<rparr>)"
    using create_whiteout_worker_failed_chown by blast
  moreover from a have "files s1 wh \<noteq> None"
    using creat_worker_opened by blast
  ultimately show "fst (create_whiteout_worker E wh s) = fst (notify_change E wh root_owner s1)
     \<and> faulted (snd (create_whiteout_worker E wh s))
     \<and> files (snd (create_whiteout_worker E wh s)) = files s1
     \<and> files s1 wh \<noteq> None"
    by (simp add: filp_close_def)
qed

theorem create_whiteout_worker_keeps_marker_witness:
  "creat_worker (refusing_context {P_notify_change}) ''/rw/.wh.file.txt'' S_IRUSR empty_fs
     = (Inr 0,
        open_file ''/rw/.wh.file.txt''
          (at_rest [''/rw/.wh.file.txt'' \<mapsto>
                      \<lparr>n_kind = Regular, n_mode = S_IRUSR, n_uid = 1000, n_gid = 1000,
                       n_ino = 1\<rparr>] 2))
   \<and> fst (notify_change (refusing_context {P_notify_change}) ''/rw/.wh.file.txt'' root_owner
            (open_file ''/rw/.wh.file.txt''
               (at_rest [''/rw/.wh.file.txt'' \<mapsto>
                           \<lparr>n_kind = Regular, n_mode = S_IRUSR, n_uid = 1000, n_gid = 1000,
                            n_ino = 1\<rparr>] 2))) = - EPERM
   \<and> fst (create_whiteout_worker (refusing_context {P_notify_change}) ''/rw/.wh.file.txt''
            empty_fs) = - EPERM
   \<and> faulted (snd (create_whiteout_worker (refusing_context {P_notify_change})
                     ''/rw/.wh.file.txt'' empty_fs))
   \<and> files (snd (create_whiteout_worker (refusing_context {P_notify_change})
                   ''/rw/.wh.file.txt'' empty_fs)) ''/rw/.wh.file.txt''
       = Some \<lparr>n_kind = Regular, n_mode = S_IRUSR, n_uid = 1000, n_gid = 1000, n_ino = 1\<rparr>"
proof -
  let ?R = "refusing_context {P_notify_change}"
  let ?s1 = "open_file ''/rw/.wh.file.txt''
               (at_rest [''/rw/.wh.file.txt'' \<mapsto>
                           \<lparr>n_kind = Regular, n_mode = S_IRUSR, n_uid = 1000, n_gid = 1000,
                            n_ino = 1\<rparr>] 2)"
  have a: "creat_worker ?R ''/rw/.wh.file.txt'' S_IRUSR empty_fs = (Inr 0, ?s1)"
    by (simp add: creat_worker_def open_file_def refusing_context_simps empty_fs_def
        at_rest_def)
  have b: "fst (notify_change ?R ''/rw/.wh.file.txt'' root_owner ?s1) = - EPERM"
    by (simp add: notify_change_def refusing_context_simps EPERM_def)
  have c: "- EPERM \<noteq> (0::int)"
    by (simp add: EPERM_def)
  have d: "files ?s1 ''/rw/.wh.file.txt''
       = Some \<lparr>n_kind = Regular, n_mode = S_IRUSR, n_uid = 1000, n_gid = 1000, n_ino = 1\<rparr>"
    by (simp add: open_file_def at_rest_def)
  from create_whiteout_worker_keeps_marker
         [of ?R "''/rw/.wh.file.txt''" empty_fs 0 ?s1] a b c d
  show ?thesis
    by simp
qed

subsection \<open>Removing a whiteout that is not there\<close>

lemma unlink_whiteout_absent_eq:
  assumes "CHR ''/'' \<notin> set L" and "length (read_write_branch E) < PATH_MAX"
    and "files s (read_write_branch E @ D @ ''/.wh.'' @ L) = None"
  shows "unlink_whiteout E (D @ ''/'' @ L) s =
    (if storage_error E P_lookup (read_write_branch E @ D @ ''/.wh.'' @ L) s < 0
     then storage_error E P_lookup (read_write_branch E @ D @ ''/.wh.'' @ L) s
     else - ENOENT,
     Some (read_write_branch E @ D @ ''/.wh.'' @ L), s)"
  using assms unlink_whiteout_split [of L E D s]
  by (simp add: get_path_dentry_def Let_def)

lemma unlink_whiteout_twice:
  assumes "unlink_whiteout E p s = (0, w, s1)"
  shows "fst (unlink_whiteout E p s1) < 0 \<and> snd (snd (unlink_whiteout E p s1)) = s1"
  using assms
  by (auto simp: unlink_whiteout_def get_path_dentry_def vfs_unlink_def Let_def
      EINVAL_def ENAMETOOLONG_def ENOENT_def EISDIR_def
      split: option.splits prod.splits if_splits sum.splits)

lemma unlink_whiteout_hidden_fs:
  "unlink_whiteout example_context ''/file.txt'' hidden_fs =
     (0, Some ''/rw/.wh.file.txt'',
      hidden_fs\<lparr>files := (files hidden_fs)(''/rw/.wh.file.txt'' := None)\<rparr>)"
  by (simp add: unlink_whiteout_def get_path_dentry_def vfs_unlink_def Let_def snprintf_s_def
      strncat_def strcat_def example_context_simps hidden_fs_def at_rest_def PATH_MAX_def)

text \<open>
  C2, as the code has it. When there is no marker, \<^verbatim>\<open>unlink_whiteout\<close> returns the
  error of the lookup (\<^verbatim>\<open>ENOENT\<close> unless the storage answers another one) and
  changes nothing; after a removal that succeeded, a second removal returns an error
  and changes nothing.
\<close>

theorem unlink_whiteout_absent:
  "(CHR ''/'' \<notin> set L \<and> length (read_write_branch E) < PATH_MAX
      \<and> files s (read_write_branch E @ D @ ''/.wh.'' @ L) = None
    \<longrightarrow> unlink_whiteout E (D @ ''/'' @ L) s =
          (if storage_error E P_lookup (read_write_branch E @ D @ ''/.wh.'' @ L) s < 0
           then storage_error E P_lookup (read_write_branch E @ D @ ''/.wh.'' @ L) s
           else - ENOENT,
           Some (read_write_branch E @ D @ ''/.wh.'' @ L), s)
        \<and> fst (unlink_whiteout E (D @ ''/'' @ L) s) < 0)
   \<and> (unlink_whiteout E p t = (0, w, t1)
    \<longrightarrow> fst (unlink_whiteout E p t1) < 0 \<and> snd (snd (unlink_whiteout E p t1)) = t1)"
  using unlink_whiteout_absent_eq [of L E s D] unlink_whiteout_twice [of E p t w t1]
  by (auto simp: ENOENT_def)

theorem unlink_whiteout_absent_witness:
  "CHR ''/'' \<notin> set ''file.txt''
   \<and> length (read_write_branch example_context) < PATH_MAX
   \<and> files empty_fs (read_write_branch example_context @ [] @ ''/.wh.'' @ ''file.txt'') = None
   \<and> unlink_whiteout example_context ''/file.txt'' empty_fs
       = (- ENOENT, Some ''/rw/.wh.file.txt'', empty_fs)
   \<and> unlink_whiteout example_context ''/file.txt'' hidden_fs
       = (0, Some ''/rw/.wh.file.txt'',
          hidden_fs\<lparr>files := (files hidden_fs)(''/rw/.wh.file.txt'' := None)\<rparr>)
   \<and> fst (unlink_whiteout example_context ''/file.txt''
            (hidden_fs\<lparr>files := (files hidden_fs)(''/rw/.wh.file.txt'' := None)\<rparr>)) < 0"
proof -
  have a: "CHR ''/'' \<notin> set ''file.txt''"
    by simp
  have b: "length (read_write_branch example_context) < PATH_MAX"
    by (simp add: example_context_simps PATH_MAX_def)
  have c: "files empty_fs (read_write_branch example_context @ [] @ ''/.wh.'' @ ''file.txt'')
             = None"
    by (simp add: empty_fs_def at_rest_def)
  show ?thesis
    using unlink_whiteout_absent
            [of "''file.txt''" example_context empty_fs "[]" "''/file.txt''" hidden_fs
               "Some ''/rw/.wh.file.txt''"
               "hidden_fs\<lparr>files := (files hidden_fs)(''/rw/.wh.file.txt'' := None)\<rparr>"]
          a b c unlink_whiteout_hidden_fs
    by (simp add: example_context_simps)
qed

text \<open>
  C2, as the claim has it, fails: the removal of a whiteout that does not exist returns
  \<^verbatim>\<open>ENOENT\<close>, and so does the second of two removals in a row.
\<close>

theorem unlink_whiteout_twice_fails:
  "fst (unlink_whiteout example_context ''/file.txt'' empty_fs) = - ENOENT
   \<and> fst (unlink_whiteout example_context ''/file.txt'' hidden_fs) = 0
   \<and> fst (unlink_whiteout example_context ''/file.txt''
            (snd (snd (unlink_whiteout example_context ''/file.txt'' hidden_fs)))) = - ENOENT"
  unfolding unlink_whiteout_hidden_fs
  by (simp add: unlink_whiteout_def get_path_dentry_def vfs_unlink_def Let_def snprintf_s_def
      strncat_def strcat_def example_context_simps hidden_fs_def at_rest_def empty_fs_def at_rest_def PATH_MAX_def)

subsection \<open>Deleting an object of the read-write branch\<close>

lemma unlink_rw_file_success:
  assumes "unlink_rw_file E path rw_path has_ro_sure s = (0, s')"
  shows "\<exists>s1. vfs_unlink E rw_path s = (0, s1) \<and> files s1 rw_path = None
     \<and> s' = (if has_ro_sure \<or> 0 \<le> fst (find_file E path {MUST_READ_ONLY} s)
             then snd (snd (create_whiteout E path s1)) else s1)"
  using assms
  by (auto simp: unlink_rw_file_def get_path_dentry_def vfs_unlink_def Let_def ENOENT_def
      EISDIR_def split: sum.splits prod.splits if_splits option.splits)






lemma unlink_rw_file_example:
  "unlink_rw_file example_context ''/file.txt'' ''/rw/file.txt'' False copied_fs
    = (0, whited_fs)"
  by (simp add: unlink_rw_file_def example_context_helpers example_context_simps
      resolve_leaf copied_fs_def at_rest_def whited_fs_def get_path_dentry_def vfs_unlink_def
      Let_def plain_file_def create_whiteout_def create_whiteout_worker_def creat_worker_def
      open_file_def f_dentry_def notify_change_def root_owner_def apply_iattr_def
      snprintf_s_def strncat_def strcat_def PATH_MAX_def fun_upd_twist)

lemma unlink_rw_file_fresh:
  "unlink_rw_file example_context ''/file.txt'' ''/rw/file.txt'' False fresh_fs
    = (0, empty_fs)"
  by (simp add: unlink_rw_file_def example_context_helpers example_context_simps
      resolve_leaf fresh_fs_def empty_fs_def at_rest_def get_path_dentry_def vfs_unlink_def
      Let_def plain_file_def ENOENT_def)

lemma unlink_rw_file_asserted_refused_creat:
  "unlink_rw_file (refusing_context {P_creat}) ''/file.txt'' ''/rw/file.txt'' True copied_fs
    = (0, copied_fs\<lparr>files := (files copied_fs)(''/rw/file.txt'' := None)\<rparr>)"
  by (simp add: unlink_rw_file_def refusing_context_helpers refusing_context_simps
      copied_fs_def at_rest_def get_path_dentry_def vfs_unlink_def Let_def plain_file_def
      create_whiteout_def create_whiteout_worker_def creat_worker_def
      snprintf_s_def strncat_def strcat_def PATH_MAX_def EPERM_def)

text \<open>
  C6, as the code has it. A delete that succeeds has unlinked the object of the
  read-write branch; exactly when a read-only counterpart exists or is asserted, it
  then runs \<^verbatim>\<open>create_whiteout\<close>, whose result it drops: the marker exists
  afterwards, owned by root, whenever that creation returned 0.
\<close>

theorem unlink_rw_file_whiteout:
  assumes "unlink_rw_file E path rw_path has_ro_sure s = (0, s')"
  shows "\<exists>s1. vfs_unlink E rw_path s = (0, s1) \<and> files s1 rw_path = None
    \<and> (if has_ro_sure \<or> 0 \<le> fst (find_file E path {MUST_READ_ONLY} s)
        then s' = snd (snd (create_whiteout E path s1))
             \<and> (fst (create_whiteout E path s1) = 0
                \<longrightarrow> (\<exists>wh n. fst (snd (create_whiteout E path s1)) = Some wh
                      \<and> files s' wh = Some n \<and> n_uid n = 0 \<and> n_gid n = 0))
        else s' = s1)"
proof -
  from unlink_rw_file_success [OF assms] obtain s1 where
    u: "vfs_unlink E rw_path s = (0, s1)" "files s1 rw_path = None"
    and s': "s' = (if has_ro_sure \<or> 0 \<le> fst (find_file E path {MUST_READ_ONLY} s)
                  then snd (snd (create_whiteout E path s1)) else s1)"
    by blast
  have "\<exists>wh n. fst (snd (create_whiteout E path s1)) = Some wh
            \<and> files (snd (snd (create_whiteout E path s1))) wh = Some n
            \<and> n_uid n = 0 \<and> n_gid n = 0"
    if "fst (create_whiteout E path s1) = 0"
    using that create_whiteout_success [of E path s1]
    by (cases "create_whiteout E path s1") auto
  with u s' show ?thesis
    by auto
qed

theorem unlink_rw_file_whiteout_witness:
  "unlink_rw_file example_context ''/file.txt'' ''/rw/file.txt'' False copied_fs
     = (0, whited_fs)
   \<and> 0 \<le> fst (find_file example_context ''/file.txt'' {MUST_READ_ONLY} copied_fs)
   \<and> vfs_unlink example_context ''/rw/file.txt'' copied_fs
       = (0, copied_fs\<lparr>files := (files copied_fs)(''/rw/file.txt'' := None)\<rparr>)
   \<and> create_whiteout example_context ''/file.txt''
         (copied_fs\<lparr>files := (files copied_fs)(''/rw/file.txt'' := None)\<rparr>)
       = (0, Some ''/rw/.wh.file.txt'', whited_fs)
   \<and> files whited_fs ''/rw/file.txt'' = None
   \<and> files whited_fs ''/rw/.wh.file.txt''
       = Some \<lparr>n_kind = Regular, n_mode = S_IRUSR, n_uid = 0, n_gid = 0, n_ino = 3\<rparr>
   \<and> unlink_rw_file example_context ''/file.txt'' ''/rw/file.txt'' False fresh_fs = (0, empty_fs)
   \<and> fst (find_file example_context ''/file.txt'' {MUST_READ_ONLY} fresh_fs) < 0
   \<and> vfs_unlink example_context ''/rw/file.txt'' fresh_fs = (0, empty_fs)"
proof -
  let ?s1 = "copied_fs\<lparr>files := (files copied_fs)(''/rw/file.txt'' := None)\<rparr>"
  have a: "0 \<le> fst (find_file example_context ''/file.txt'' {MUST_READ_ONLY} copied_fs)"
    by (simp add: example_context_helpers resolve_leaf copied_fs_def at_rest_def)
  have b: "fst (find_file example_context ''/file.txt'' {MUST_READ_ONLY} fresh_fs) < 0"
    by (simp add: example_context_helpers resolve_leaf fresh_fs_def at_rest_def ENOENT_def)
  have c: "vfs_unlink example_context ''/rw/file.txt'' copied_fs = (0, ?s1)"
    by (simp add: vfs_unlink_def example_context_simps copied_fs_def at_rest_def plain_file_def)
  have d: "create_whiteout example_context ''/file.txt'' ?s1
      = (0, Some ''/rw/.wh.file.txt'', whited_fs)"
    by (simp add: example_context_simps copied_fs_def at_rest_def whited_fs_def Let_def
        create_whiteout_def create_whiteout_worker_def creat_worker_def open_file_def
        f_dentry_def notify_change_def root_owner_def apply_iattr_def snprintf_s_def
        strncat_def strcat_def PATH_MAX_def fun_upd_twist)
  have e: "vfs_unlink example_context ''/rw/file.txt'' fresh_fs = (0, empty_fs)"
    by (simp add: vfs_unlink_def example_context_simps fresh_fs_def empty_fs_def at_rest_def
        plain_file_def)
  have f: "files whited_fs ''/rw/file.txt'' = None"
    "files whited_fs ''/rw/.wh.file.txt''
       = Some \<lparr>n_kind = Regular, n_mode = S_IRUSR, n_uid = 0, n_gid = 0, n_ino = 3\<rparr>"
    by (simp_all add: whited_fs_def)
  from unlink_rw_file_whiteout [OF unlink_rw_file_example]
       unlink_rw_file_whiteout [OF unlink_rw_file_fresh]
       a b c d e f unlink_rw_file_example unlink_rw_file_fresh
  show ?thesis
    by simp
qed

text \<open>
  C6, as the claim has it, fails: with a read-only counterpart on the branch and asserted
  by the caller, the delete returns 0 and leaves no marker when the storage refuses the
  creation of the marker.
\<close>

theorem unlink_rw_file_without_whiteout:
  "fst (unlink_rw_file (refusing_context {P_creat}) ''/file.txt'' ''/rw/file.txt''
          True copied_fs) = 0
   \<and> files copied_fs ''/ro/file.txt'' = Some (plain_file 1)
   \<and> 0 \<le> fst (find_file (refusing_context {P_creat}) ''/file.txt'' {MUST_READ_ONLY}
                copied_fs)
   \<and> files (snd (unlink_rw_file (refusing_context {P_creat}) ''/file.txt''
                   ''/rw/file.txt'' True copied_fs))
       = [''/ro/file.txt'' \<mapsto> plain_file 1]"
  unfolding unlink_rw_file_asserted_refused_creat
  by (simp add: refusing_context_helpers resolve_leaf copied_fs_def at_rest_def)

subsection \<open>Creating over an existing path\<close>

lemma pierrefs_link_exists:
  assumes "get_relative_path E old_dentry = (e1, from)" and "0 \<le> e1"
    and "0 \<le> fst (find_file E from {} s)"
    and "get_relative_path_for_file E dir dentry = (e2, to)" and "0 \<le> e2"
    and "0 \<le> fst (find_file E to {} s)"
  shows "pierrefs_link E old_dentry dir dentry s = (- EEXIST, s)"
  using assms
  by (cases "find_file E from {} s"; cases "find_file E to {} s")
     (simp add: pierrefs_link_def Let_def)

lemma create_exists:
  assumes "get_relative_path_for_file E dir dentry = (e, path)" and "0 \<le> e"
    and "0 \<le> fst (find_file E path {} s)"
  shows "pierrefs_mkdir E dir dentry mode s = (- EEXIST, s)"
    and "pierrefs_mknod E dir dentry mode rdev s = (- EEXIST, s)"
    and "pierrefs_symlink E dir dentry symname s = (- EEXIST, s)"
  using assms
  by (cases "find_file E path {} s";
      simp add: pierrefs_mkdir_def pierrefs_mknod_def pierrefs_symlink_def Let_def)+

lemma pierrefs_link_stops:
  assumes "0 \<le> fst (find_file E (snd (get_relative_path_for_file E dir dentry)) {} s)"
  shows "fst (pierrefs_link E old_dentry dir dentry s) \<noteq> 0
         \<and> snd (pierrefs_link E old_dentry dir dentry s) = s"
  using assms
  by (cases "get_relative_path E old_dentry";
      cases "find_file E (snd (get_relative_path E old_dentry)) {} s";
      cases "get_relative_path_for_file E dir dentry";
      cases "find_file E (snd (get_relative_path_for_file E dir dentry)) {} s")
     (simp add: pierrefs_link_def Let_def EEXIST_def)

lemma create_stops:
  assumes "0 \<le> fst (find_file E (snd (get_relative_path_for_file E dir dentry)) {} s)"
  shows "fst (pierrefs_mkdir E dir dentry mode s) \<noteq> 0
         \<and> snd (pierrefs_mkdir E dir dentry mode s) = s"
    and "fst (pierrefs_mknod E dir dentry mode rdev s) \<noteq> 0
         \<and> snd (pierrefs_mknod E dir dentry mode rdev s) = s"
    and "fst (pierrefs_symlink E dir dentry symname s) \<noteq> 0
         \<and> snd (pierrefs_symlink E dir dentry symname s) = s"
  using assms
  by (cases "get_relative_path_for_file E dir dentry";
      cases "find_file E (snd (get_relative_path_for_file E dir dentry)) {} s";
      simp add: pierrefs_mkdir_def pierrefs_mknod_def pierrefs_symlink_def Let_def EEXIST_def)+

text \<open>
  C3, as the code has it. Once the virtual path of the target is known, each of
  \<^verbatim>\<open>pierrefs_mkdir\<close>, \<^verbatim>\<open>pierrefs_mknod\<close> and \<^verbatim>\<open>pierrefs_symlink\<close> returns
  \<^verbatim>\<open>-EEXIST\<close> and changes nothing whenever \<^verbatim>\<open>find_file\<close> on the target
  succeeds, and so does \<^verbatim>\<open>pierrefs_link\<close> when its source has been resolved, which
  comes first; and whenever \<^verbatim>\<open>find_file\<close> on the target succeeds none of the four
  returns 0 or changes the state, so that they proceed to create only when the target
  resolves to nothing.
\<close>

theorem create_family_already_exists:
  "(get_relative_path E old_dentry = (e1, from) \<and> 0 \<le> e1
      \<and> 0 \<le> fst (find_file E from {} s)
      \<and> get_relative_path_for_file E dir dentry = (e2, to) \<and> 0 \<le> e2
      \<and> 0 \<le> fst (find_file E to {} s)
    \<longrightarrow> pierrefs_link E old_dentry dir dentry s = (- EEXIST, s))
   \<and> (get_relative_path_for_file E dir dentry = (e2, to) \<and> 0 \<le> e2
      \<and> 0 \<le> fst (find_file E to {} s)
    \<longrightarrow> pierrefs_mkdir E dir dentry mode s = (- EEXIST, s)
        \<and> pierrefs_mknod E dir dentry mode rdev s = (- EEXIST, s)
        \<and> pierrefs_symlink E dir dentry symname s = (- EEXIST, s))
   \<and> (0 \<le> fst (find_file E (snd (get_relative_path_for_file E dir dentry)) {} s)
    \<longrightarrow> fst (pierrefs_link E old_dentry dir dentry s) \<noteq> 0
        \<and> snd (pierrefs_link E old_dentry dir dentry s) = s
        \<and> fst (pierrefs_mkdir E dir dentry mode s) \<noteq> 0
        \<and> snd (pierrefs_mkdir E dir dentry mode s) = s
        \<and> fst (pierrefs_mknod E dir dentry mode rdev s) \<noteq> 0
        \<and> snd (pierrefs_mknod E dir dentry mode rdev s) = s
        \<and> fst (pierrefs_symlink E dir dentry symname s) \<noteq> 0
        \<and> snd (pierrefs_symlink E dir dentry symname s) = s)"
proof (intro conjI impI)
  assume "get_relative_path E old_dentry = (e1, from) \<and> 0 \<le> e1
      \<and> 0 \<le> fst (find_file E from {} s)
      \<and> get_relative_path_for_file E dir dentry = (e2, to) \<and> 0 \<le> e2
      \<and> 0 \<le> fst (find_file E to {} s)"
  then show "pierrefs_link E old_dentry dir dentry s = (- EEXIST, s)"
    using pierrefs_link_exists by blast
next
  assume a: "get_relative_path_for_file E dir dentry = (e2, to) \<and> 0 \<le> e2
      \<and> 0 \<le> fst (find_file E to {} s)"
  from a show "pierrefs_mkdir E dir dentry mode s = (- EEXIST, s)"
    using create_exists(1) by blast
  from a show "pierrefs_mknod E dir dentry mode rdev s = (- EEXIST, s)"
    using create_exists(2) by blast
  from a show "pierrefs_symlink E dir dentry symname s = (- EEXIST, s)"
    using create_exists(3) by blast
next
  assume b: "0 \<le> fst (find_file E (snd (get_relative_path_for_file E dir dentry)) {} s)"
  from pierrefs_link_stops [OF b]
  show "fst (pierrefs_link E old_dentry dir dentry s) \<noteq> 0"
    and "snd (pierrefs_link E old_dentry dir dentry s) = s"
    by simp_all
  from create_stops(1) [OF b]
  show "fst (pierrefs_mkdir E dir dentry mode s) \<noteq> 0"
    and "snd (pierrefs_mkdir E dir dentry mode s) = s"
    by simp_all
  from create_stops(2) [OF b]
  show "fst (pierrefs_mknod E dir dentry mode rdev s) \<noteq> 0"
    and "snd (pierrefs_mknod E dir dentry mode rdev s) = s"
    by simp_all
  from create_stops(3) [OF b]
  show "fst (pierrefs_symlink E dir dentry symname s) \<noteq> 0"
    and "snd (pierrefs_symlink E dir dentry symname s) = s"
    by simp_all
qed

theorem create_family_already_exists_witness:
  "get_relative_path example_context [''file.txt''] = (0, ''/file.txt'')
   \<and> get_relative_path_for_file example_context 1 [''file.txt''] = (0, ''/file.txt'')
   \<and> 0 \<le> fst (find_file example_context ''/file.txt'' {} copied_fs)
   \<and> pierrefs_link example_context [''file.txt''] 1 [''file.txt''] copied_fs
       = (- EEXIST, copied_fs)
   \<and> pierrefs_mkdir example_context 1 [''file.txt''] 493 copied_fs = (- EEXIST, copied_fs)
   \<and> pierrefs_mknod example_context 1 [''file.txt''] 493 0 copied_fs = (- EEXIST, copied_fs)
   \<and> pierrefs_symlink example_context 1 [''file.txt''] ''target'' copied_fs
       = (- EEXIST, copied_fs)"
proof -
  have a: "get_relative_path example_context [''file.txt''] = (0, ''/file.txt'')"
    by (simp add: example_context_helpers relative_path_file_txt)
  have b: "get_relative_path_for_file example_context 1 [''file.txt''] = (0, ''/file.txt'')"
    by (simp add: example_context_helpers relative_path_file_txt)
  have c: "0 \<le> fst (find_file example_context ''/file.txt'' {} copied_fs)"
    by (simp add: example_context_helpers resolve_leaf copied_fs_def at_rest_def)
  from create_family_already_exists
         [of example_context "[''file.txt'']" 0 "''/file.txt''" copied_fs 1 "[''file.txt'']"
             0 "''/file.txt''" 493 0 "''target''"]
       a b c
  show ?thesis
    by simp
qed

text \<open>
  C3, as the claim has it, fails for a link: when the source does not resolve, the error
  of the source is returned although the target resolves.
\<close>

theorem pierrefs_link_source_first:
  "get_relative_path_for_file example_context 2 [''file.txt''] = (0, ''/file.txt'')
   \<and> find_file example_context ''/file.txt'' {} copied_fs
       = (READ_WRITE example_context, ''/rw/file.txt'')
   \<and> 0 \<le> READ_WRITE example_context
   \<and> pierrefs_link example_context [''gone.txt''] 2 [''file.txt''] copied_fs
       = (- ENOENT, copied_fs)
   \<and> - ENOENT \<noteq> - EEXIST"
  by (simp add: pierrefs_link_def example_context_helpers relative_path_def resolve_leaf
      copied_fs_def at_rest_def Let_def ENOENT_def EEXIST_def)

subsection \<open>Creating over a whiteout\<close>

lemma pierrefs_mkdir_fails: "fst (pierrefs_mkdir E dir dentry mode s) < 0"
proof -
  obtain e path where a: "get_relative_path_for_file E dir dentry = (e, path)"
    by (cases "get_relative_path_for_file E dir dentry")
  obtain f rp where b: "find_file E path {} s = (f, rp)"
    by (cases "find_file E path {} s")
  obtain g rp1 s1 where c: "find_path E path (Some (read_write_branch E @ path)) s = (g, rp1, s1)"
    by (cases "find_path E path (Some (read_write_branch E @ path)) s")
  obtain h s2 where d: "mkdir_worker E rp1 (mode OR S_IFDIR) s1 = (h, s2)"
    by (cases "mkdir_worker E rp1 (mode OR S_IFDIR) s1")
  obtain k s3 where e: "vfs_unlink (push_root E) rp1 s2 = (k, s3)"
    by (cases "vfs_unlink (push_root E) rp1 s2")
  show ?thesis
    by (simp add: pierrefs_mkdir_def a b c d e Let_def make_rw_path_def hide_directory_contents_def
        get_path_dentry_def EEXIST_def ENAMETOOLONG_def EINVAL_def split: sum.splits)
qed

lemma unlink_whiteout_clears:
  assumes "CHR ''/'' \<notin> set L" and "length (read_write_branch E) < PATH_MAX"
    and "\<forall>t. 0 \<le> storage_error E P_lookup (read_write_branch E @ D @ ''/.wh.'' @ L) t"
    and "\<forall>t. 0 \<le> storage_error E P_unlink (read_write_branch E @ D @ ''/.wh.'' @ L) t"
  shows "files (snd (snd (unlink_whiteout E (D @ ''/'' @ L) s)))
           (read_write_branch E @ D @ ''/.wh.'' @ L) = None
       \<or> map_option n_kind (files (snd (snd (unlink_whiteout E (D @ ''/'' @ L) s)))
           (read_write_branch E @ D @ ''/.wh.'' @ L)) = Some Directory"
proof -
  define wh where "wh = read_write_branch E @ D @ ''/.wh.'' @ L"
  have ok: "\<not> storage_error E P_lookup wh t < 0" "\<not> storage_error E P_unlink wh t < 0" for t
    using assms(3,4) by (simp_all add: not_less wh_def)
  have eq: "unlink_whiteout E (D @ ''/'' @ L) s =
    (case get_path_dentry E wh s of
       Inl e \<Rightarrow> (e, Some wh, s)
     | Inr dentry \<Rightarrow> (let (err, s1) = vfs_unlink E dentry s in (err, Some wh, s1)))"
    using unlink_whiteout_split [OF assms(1,2), of D s]
    by (simp add: wh_def Let_def split: sum.splits)
  have "files (snd (snd (unlink_whiteout E (D @ ''/'' @ L) s))) wh = None
      \<or> map_option n_kind (files (snd (snd (unlink_whiteout E (D @ ''/'' @ L) s))) wh)
          = Some Directory"
    unfolding eq
    by (auto simp: get_path_dentry_def vfs_unlink_def Let_def ok split: option.splits)
  then show ?thesis
    by (simp add: wh_def)
qed

lemma pierrefs_mknod_success:
  assumes "pierrefs_mknod E dir dentry mode rdev s = (0, s')"
  shows "\<exists>s2. s' = snd (snd (unlink_whiteout E (snd (get_relative_path_for_file E dir dentry)) s2))"
proof -
  obtain e path where a: "get_relative_path_for_file E dir dentry = (e, path)"
    by (cases "get_relative_path_for_file E dir dentry")
  obtain f rp where b: "find_file E path {} s = (f, rp)"
    by (cases "find_file E path {} s")
  obtain g rp1 s1 where c: "find_path E path (Some rp) s = (g, rp1, s1)"
    by (cases "find_path E path (Some rp) s")
  obtain h s2 where d: "(if S_ISFIFO mode then mkfifo E rp1 mode s1
                            else mknod E rp1 mode rdev s1) = (h, s2)"
    by (cases "if S_ISFIFO mode then mkfifo E rp1 mode s1 else mknod E rp1 mode rdev s1")
  obtain k w s3 where e: "unlink_whiteout E path s2 = (k, w, s3)"
    by (cases "unlink_whiteout E path s2")
  from assms have "s' = s3"
    by (simp add: pierrefs_mknod_def a b c d e Let_def EEXIST_def split: if_splits)
  with a e show ?thesis
    by (intro exI [of _ s2]) simp
qed

lemma pierrefs_symlink_success:
  assumes "pierrefs_symlink E dir dentry symname s = (0, s')"
  shows "\<exists>s2. s' = snd (snd (unlink_whiteout E (snd (get_relative_path_for_file E dir dentry)) s2))"
proof -
  obtain e path where a: "get_relative_path_for_file E dir dentry = (e, path)"
    by (cases "get_relative_path_for_file E dir dentry")
  obtain f rp where b: "find_file E path {} s = (f, rp)"
    by (cases "find_file E path {} s")
  obtain g rp1 s1 where c: "find_path E path (Some (read_write_branch E @ path)) s = (g, rp1, s1)"
    by (cases "find_path E path (Some (read_write_branch E @ path)) s")
  obtain h s2 where d: "symlink_worker E symname rp1 s1 = (h, s2)"
    by (cases "symlink_worker E symname rp1 s1")
  obtain k w s3 where e: "unlink_whiteout E path s2 = (k, w, s3)"
    by (cases "unlink_whiteout E path s2")
  from assms have "s' = s3"
    by (simp add: pierrefs_symlink_def a b c d e Let_def make_rw_path_def EEXIST_def
        ENAMETOOLONG_def split: if_splits)
  with a e show ?thesis
    by (intro exI [of _ s2]) simp
qed

lemma pierrefs_mknod_hidden_fs:
  "pierrefs_mknod example_context 2 [''file.txt''] 33188 0 hidden_fs
    = (0, at_rest [''/ro/file.txt'' \<mapsto> plain_file 1,
                    ''/rw/file.txt'' \<mapsto>
                      \<lparr>n_kind = Regular, n_mode = 33188, n_uid = 1000, n_gid = 1000,
                       n_ino = 3\<rparr>] 4)"
  by (simp add: pierrefs_mknod_def example_context_helpers example_context_simps
      relative_path_file_txt resolve_leaf hidden_fs_def at_rest_def Let_def ENOENT_def
      S_ISFIFO_def S_ISDIR_def S_IFMT_def S_IFIFO_def S_IFDIR_def S_IFREG_def
      mknod_def add_node_def new_node_def unlink_whiteout_def get_path_dentry_def
      vfs_unlink_def snprintf_s_def strncat_def strcat_def PATH_MAX_def fun_upd_twist)

lemma pierrefs_symlink_hidden_fs:
  "pierrefs_symlink example_context 2 [''file.txt''] ''target'' hidden_fs
    = (0, at_rest [''/ro/file.txt'' \<mapsto> plain_file 1,
                    ''/rw/file.txt'' \<mapsto>
                      \<lparr>n_kind = Symlink ''target'', n_mode = 41471, n_uid = 1000,
                       n_gid = 1000, n_ino = 3\<rparr>] 4)"
  by (simp add: pierrefs_symlink_def example_context_helpers example_context_simps
      relative_path_file_txt resolve_leaf hidden_fs_def at_rest_def Let_def ENOENT_def
      make_rw_path_def S_IFLNK_def S_IRWXUGO_def
      symlink_worker_def add_node_def new_node_def unlink_whiteout_def get_path_dentry_def
      vfs_unlink_def snprintf_s_def strncat_def strcat_def PATH_MAX_def fun_upd_twist)

lemma pierrefs_mknod_refused_unlink:
  "pierrefs_mknod (refusing_context {P_unlink}) 2 [''file.txt''] 33188 0 hidden_fs
    = (0, at_rest [''/ro/file.txt'' \<mapsto> plain_file 1,
                    ''/rw/.wh.file.txt'' \<mapsto>
                      \<lparr>n_kind = Regular, n_mode = S_IRUSR, n_uid = 0, n_gid = 0, n_ino = 2\<rparr>,
                    ''/rw/file.txt'' \<mapsto>
                      \<lparr>n_kind = Regular, n_mode = 33188, n_uid = 1000, n_gid = 1000,
                       n_ino = 3\<rparr>] 4)"
  by (simp add: pierrefs_mknod_def refusing_context_helpers refusing_context_simps
      relative_path_file_txt resolve_leaf hidden_fs_def at_rest_def Let_def ENOENT_def EPERM_def
      S_ISFIFO_def S_ISDIR_def S_IFMT_def S_IFIFO_def S_IFDIR_def S_IFREG_def
      mknod_def add_node_def new_node_def unlink_whiteout_def get_path_dentry_def
      vfs_unlink_def snprintf_s_def strncat_def strcat_def PATH_MAX_def)

lemma pierrefs_mknod_blocked_fs:
  "pierrefs_mknod example_context 2 [''file.txt''] 33188 0 blocked_fs
    = (0, blocked_fs
            \<lparr>files := (files blocked_fs)(''/rw/file.txt'' \<mapsto>
                 \<lparr>n_kind = Regular, n_mode = 33188, n_uid = 1000, n_gid = 1000,
                  n_ino = 3\<rparr>),
             next_ino := 4\<rparr>)"
  by (simp add: pierrefs_mknod_def example_context_helpers example_context_simps
      relative_path_file_txt resolve_leaf blocked_fs_def at_rest_def Let_def ENOENT_def
      EISDIR_def S_ISFIFO_def S_ISDIR_def S_IFMT_def S_IFIFO_def S_IFDIR_def S_IFREG_def
      mknod_def add_node_def new_node_def unlink_whiteout_def get_path_dentry_def
      vfs_unlink_def snprintf_s_def strncat_def strcat_def PATH_MAX_def)

text \<open>
  C7, as the code has it. After a \<^verbatim>\<open>pierrefs_mknod\<close> or a \<^verbatim>\<open>pierrefs_symlink\<close>
  that returned 0, for a target whose marker path fits the buffer, the marker path holds
  no object, unless it holds a directory, provided the storage refuses neither the
  lookup nor the unlink of the marker: the result of \<^verbatim>\<open>unlink_whiteout\<close> is
  dropped, and \<^verbatim>\<open>vfs_unlink\<close> does not remove a directory.
\<close>

theorem recreate_removes_whiteout:
  "get_relative_path_for_file E dir dentry = (e, D @ ''/'' @ L)
     \<and> CHR ''/'' \<notin> set L
     \<and> length (read_write_branch E @ D @ ''/'' @ ''.wh.'' @ L) < PATH_MAX
     \<and> (\<forall>t. 0 \<le> storage_error E P_lookup (read_write_branch E @ D @ ''/.wh.'' @ L) t)
     \<and> (\<forall>t. 0 \<le> storage_error E P_unlink (read_write_branch E @ D @ ''/.wh.'' @ L) t)
   \<longrightarrow> (pierrefs_mknod E dir dentry mode rdev s = (0, s')
        \<longrightarrow> files s' (read_write_branch E @ D @ ''/.wh.'' @ L) = None
           \<or> map_option n_kind (files s' (read_write_branch E @ D @ ''/.wh.'' @ L))
               = Some Directory)
     \<and> (pierrefs_symlink E dir dentry symname s = (0, s'')
        \<longrightarrow> files s'' (read_write_branch E @ D @ ''/.wh.'' @ L) = None
           \<or> map_option n_kind (files s'' (read_write_branch E @ D @ ''/.wh.'' @ L))
               = Some Directory)"
proof (intro conjI impI)
  assume h: "get_relative_path_for_file E dir dentry = (e, D @ ''/'' @ L)
     \<and> CHR ''/'' \<notin> set L
     \<and> length (read_write_branch E @ D @ ''/'' @ ''.wh.'' @ L) < PATH_MAX
     \<and> (\<forall>t. 0 \<le> storage_error E P_lookup (read_write_branch E @ D @ ''/.wh.'' @ L) t)
     \<and> (\<forall>t. 0 \<le> storage_error E P_unlink (read_write_branch E @ D @ ''/.wh.'' @ L) t)"
    and r: "pierrefs_mknod E dir dentry mode rdev s = (0, s')"
  from h have l: "length (read_write_branch E) < PATH_MAX"
    by simp
  from pierrefs_mknod_success [OF r] h obtain s2 where
    "s' = snd (snd (unlink_whiteout E (D @ ''/'' @ L) s2))"
    by auto
  with h l unlink_whiteout_clears [of L E D s2]
  show "files s' (read_write_branch E @ D @ ''/.wh.'' @ L) = None
      \<or> map_option n_kind (files s' (read_write_branch E @ D @ ''/.wh.'' @ L))
          = Some Directory"
    by blast
next
  assume h: "get_relative_path_for_file E dir dentry = (e, D @ ''/'' @ L)
     \<and> CHR ''/'' \<notin> set L
     \<and> length (read_write_branch E @ D @ ''/'' @ ''.wh.'' @ L) < PATH_MAX
     \<and> (\<forall>t. 0 \<le> storage_error E P_lookup (read_write_branch E @ D @ ''/.wh.'' @ L) t)
     \<and> (\<forall>t. 0 \<le> storage_error E P_unlink (read_write_branch E @ D @ ''/.wh.'' @ L) t)"
    and r: "pierrefs_symlink E dir dentry symname s = (0, s'')"
  from h have l: "length (read_write_branch E) < PATH_MAX"
    by simp
  from pierrefs_symlink_success [OF r] h obtain s2 where
    "s'' = snd (snd (unlink_whiteout E (D @ ''/'' @ L) s2))"
    by auto
  with h l unlink_whiteout_clears [of L E D s2]
  show "files s'' (read_write_branch E @ D @ ''/.wh.'' @ L) = None
      \<or> map_option n_kind (files s'' (read_write_branch E @ D @ ''/.wh.'' @ L))
          = Some Directory"
    by blast
qed

theorem recreate_removes_whiteout_witness:
  "get_relative_path_for_file example_context 2 [''file.txt''] = (0, [] @ ''/'' @ ''file.txt'')
   \<and> CHR ''/'' \<notin> set ''file.txt''
   \<and> length (read_write_branch example_context @ [] @ ''/'' @ ''.wh.'' @ ''file.txt'')
       < PATH_MAX
   \<and> (\<forall>t. 0 \<le> storage_error example_context P_lookup ''/rw/.wh.file.txt'' t)
   \<and> (\<forall>t. 0 \<le> storage_error example_context P_unlink ''/rw/.wh.file.txt'' t)
   \<and> files hidden_fs ''/rw/.wh.file.txt''
       = Some \<lparr>n_kind = Regular, n_mode = S_IRUSR, n_uid = 0, n_gid = 0, n_ino = 2\<rparr>
   \<and> fst (pierrefs_mknod example_context 2 [''file.txt''] 33188 0 hidden_fs) = 0
   \<and> files (snd (pierrefs_mknod example_context 2 [''file.txt''] 33188 0 hidden_fs))
        ''/rw/.wh.file.txt'' = None
   \<and> fst (pierrefs_symlink example_context 2 [''file.txt''] ''target'' hidden_fs) = 0
   \<and> files (snd (pierrefs_symlink example_context 2 [''file.txt''] ''target'' hidden_fs))
        ''/rw/.wh.file.txt'' = None"
proof -
  have a: "get_relative_path_for_file example_context 2 [''file.txt'']
             = (0, [] @ ''/'' @ ''file.txt'')"
    by (simp add: example_context_helpers relative_path_file_txt)
  have b: "CHR ''/'' \<notin> set ''file.txt''"
    by simp
  have c: "length (read_write_branch example_context @ [] @ ''/'' @ ''.wh.'' @ ''file.txt'')
             < PATH_MAX"
    by (simp add: example_context_simps PATH_MAX_def)
  have d: "\<forall>t. 0 \<le> storage_error example_context P_lookup
                    (read_write_branch example_context @ [] @ ''/.wh.'' @ ''file.txt'') t"
    "\<forall>t. 0 \<le> storage_error example_context P_unlink
                    (read_write_branch example_context @ [] @ ''/.wh.'' @ ''file.txt'') t"
    by (simp_all add: example_context_simps)
  have e: "files hidden_fs ''/rw/.wh.file.txt''
             = Some \<lparr>n_kind = Regular, n_mode = S_IRUSR, n_uid = 0, n_gid = 0, n_ino = 2\<rparr>"
    by (simp add: hidden_fs_def at_rest_def)
  from recreate_removes_whiteout
         [of example_context 2 "[''file.txt'']" 0 "[]" "''file.txt''" 33188 0 hidden_fs
             "snd (pierrefs_mknod example_context 2 [''file.txt''] 33188 0 hidden_fs)"
             "''target''"
             "snd (pierrefs_symlink example_context 2 [''file.txt''] ''target'' hidden_fs)"]
       a b c d
  show ?thesis
    using e
    by (simp add: pierrefs_mknod_hidden_fs pierrefs_symlink_hidden_fs example_context_simps
        at_rest_def)
qed

text \<open>
  C7, as the claim has it, fails. Over the whiteout of \<^verbatim>\<open>/file.txt\<close>, on a storage
  that refuses the unlink, \<^verbatim>\<open>pierrefs_mknod\<close> creates the node and returns 0, the
  marker is still there, and the path still resolves to nothing. And over a directory at
  the marker path, on a storage that refuses nothing, it does the same.
\<close>

theorem pierrefs_mknod_keeps_whiteout:
  "fst (pierrefs_mknod (refusing_context {P_unlink}) 2 [''file.txt''] 33188 0 hidden_fs) = 0
   \<and> files (snd (pierrefs_mknod (refusing_context {P_unlink}) 2 [''file.txt''] 33188 0
                   hidden_fs)) ''/rw/.wh.file.txt''
       = Some \<lparr>n_kind = Regular, n_mode = S_IRUSR, n_uid = 0, n_gid = 0, n_ino = 2\<rparr>
   \<and> files (snd (pierrefs_mknod (refusing_context {P_unlink}) 2 [''file.txt''] 33188 0
                   hidden_fs)) ''/rw/file.txt''
       = Some \<lparr>n_kind = Regular, n_mode = 33188, n_uid = 1000, n_gid = 1000, n_ino = 3\<rparr>
   \<and> fst (find_file (refusing_context {P_unlink}) ''/file.txt'' {}
            (snd (pierrefs_mknod (refusing_context {P_unlink}) 2 [''file.txt''] 33188 0
                    hidden_fs))) = - ENOENT
   \<and> fst (pierrefs_mknod example_context 2 [''file.txt''] 33188 0 blocked_fs) = 0
   \<and> files (snd (pierrefs_mknod example_context 2 [''file.txt''] 33188 0 blocked_fs))
        ''/rw/.wh.file.txt''
       = Some \<lparr>n_kind = Directory, n_mode = 16877, n_uid = 1000, n_gid = 1000, n_ino = 2\<rparr>
   \<and> files (snd (pierrefs_mknod example_context 2 [''file.txt''] 33188 0 blocked_fs))
        ''/rw/file.txt''
       = Some \<lparr>n_kind = Regular, n_mode = 33188, n_uid = 1000, n_gid = 1000, n_ino = 3\<rparr>
   \<and> fst (find_file example_context ''/file.txt'' {}
            (snd (pierrefs_mknod example_context 2 [''file.txt''] 33188 0 blocked_fs)))
       = - ENOENT"
  unfolding pierrefs_mknod_refused_unlink pierrefs_mknod_blocked_fs
  by (simp add: refusing_context_helpers example_context_helpers resolve_leaf blocked_fs_def
      at_rest_def)

subsection \<open>Links\<close>

lemma unlink_whiteout_keeps_target:
  "files (snd (snd (unlink_whiteout E to s))) (read_write_branch E @ to)
     = files s (read_write_branch E @ to)"
proof (cases "strrchr to CHR ''/''")
  case None
  then show ?thesis
    by (simp add: unlink_whiteout_def)
next
  case (Some i)
  then have i: "i < length to"
    using strrchr_Some by blast
  define wh where
    "wh = take (PATH_MAX - 1) (read_write_branch E) @ take (i + 1) to @ ''.wh.''
            @ drop (i + 1) to"
  have ne: "wh \<noteq> read_write_branch E @ to" if "\<not> PATH_MAX < length (read_write_branch E)"
  proof
    assume "wh = read_write_branch E @ to"
    then have "length wh = length (read_write_branch E @ to)"
      by simp
    with i that show False
      by (simp add: wh_def PATH_MAX_def min_def split: if_splits)
  qed
  have eq: "unlink_whiteout E to s =
    (if int PATH_MAX < int (length (read_write_branch E))
     then (- ENAMETOOLONG, Some (take (PATH_MAX - 1) (read_write_branch E)), s)
     else (case get_path_dentry E wh s of
             Inl e \<Rightarrow> (e, Some wh, s)
           | Inr dentry \<Rightarrow> (let (err, s1) = vfs_unlink E dentry s in (err, Some wh, s1))))"
    using Some
    by (simp add: unlink_whiteout_def snprintf_s_def strncat_def strcat_def Let_def wh_def
        split: sum.splits)
  show ?thesis
    unfolding eq using ne
    by (auto simp: get_path_dentry_def vfs_unlink_def Let_def split: option.splits)
qed

lemma add_node_success:
  assumes "add_node E pr p k mode s = (err, s')" and "\<not> err < 0"
  shows "files s p = None \<and> s' = s\<lparr>files := (files s)(p \<mapsto> new_node E k mode s),
                                     next_ino := Suc (next_ino s)\<rparr>"
  using assms
  by (auto simp: add_node_def EEXIST_def split: if_splits)

lemma link_worker_success:
  assumes "link_worker E old p s = (err, s')" and "\<not> err < 0"
  shows "\<exists>n. files s old = Some n \<and> n_kind n \<noteq> Directory \<and> files s p = None
             \<and> s' = s\<lparr>files := (files s)(p \<mapsto> n)\<rparr>"
  using assms
  by (auto simp: link_worker_def EEXIST_def ENOENT_def EPERM_def split: if_splits option.splits)

lemma pierrefs_link_read_only:
  assumes "get_relative_path E old_dentry = (e1, from)"
    and "find_file E from {} s = (READ_ONLY E, real_from)"
    and "get_relative_path_for_file E dir dentry = (e2, to)"
    and "find_file E to {} s = (e3, rt0)"
    and "find_path E to (Some rt0) s = (e4, read_write_branch E @ to, s1)"
    and "pierrefs_link E old_dentry dir dentry s = (0, s')"
  shows "files s1 (read_write_branch E @ to) = None
       \<and> files s' (read_write_branch E @ to)
           = Some (new_node E (Symlink real_from) (S_IFLNK OR S_IRWXUGO) s1)"
proof -
  obtain err s2 where w: "symlink_worker E real_from (read_write_branch E @ to) s1 = (err, s2)"
    by (cases "symlink_worker E real_from (read_write_branch E @ to) s1")
  from assms w have ok: "\<not> err < 0"
    and s': "s' = snd (snd (unlink_whiteout E to s2))"
    by (auto simp: pierrefs_link_def Let_def EEXIST_def split: if_splits prod.splits)
  from add_node_success [OF w [unfolded symlink_worker_def] ok]
  have "files s1 (read_write_branch E @ to) = None"
    and "files s2 (read_write_branch E @ to)
           = Some (new_node E (Symlink real_from) (S_IFLNK OR S_IRWXUGO) s1)"
    by simp_all
  then show ?thesis
    by (simp add: s' unlink_whiteout_keeps_target)
qed

lemma pierrefs_link_read_write:
  assumes "get_relative_path E old_dentry = (e1, from)"
    and "find_file E from {} s = (origin, real_from)" and "origin \<noteq> READ_ONLY E"
    and "get_relative_path_for_file E dir dentry = (e2, to)"
    and "find_file E to {} s = (e3, rt0)"
    and "find_path E to (Some rt0) s = (e4, rt1, s1)"
    and "pierrefs_link E old_dentry dir dentry s = (0, s')"
  shows "\<exists>n. files s1 real_from = Some n \<and> n_kind n \<noteq> Directory
             \<and> files s1 (read_write_branch E @ to) = None
             \<and> files s' (read_write_branch E @ to) = Some n"
proof -
  obtain err s2 where w: "link_worker E real_from (read_write_branch E @ to) s1 = (err, s2)"
    by (cases "link_worker E real_from (read_write_branch E @ to) s1")
  from assms w have ok: "\<not> err < 0"
    and s': "s' = snd (snd (unlink_whiteout E to s2))"
    by (auto simp: pierrefs_link_def Let_def EEXIST_def ENAMETOOLONG_def make_rw_path_def
        split: if_splits prod.splits)
  from link_worker_success [OF w ok] obtain n where
    "files s1 real_from = Some n" "n_kind n \<noteq> Directory"
    "files s1 (read_write_branch E @ to) = None"
    "files s2 (read_write_branch E @ to) = Some n"
    by auto
  then show ?thesis
    by (simp add: s' unlink_whiteout_keeps_target)
qed

lemma pierrefs_link_ro_only_fs:
  "pierrefs_link example_context [''file.txt''] 2 [''link.txt''] ro_only_fs
    = (0, at_rest [''/ro/file.txt'' \<mapsto> plain_file 1,
                    ''/rw/link.txt'' \<mapsto>
                      \<lparr>n_kind = Symlink ''/ro/file.txt'', n_mode = 41471, n_uid = 1000,
                       n_gid = 1000, n_ino = 2\<rparr>] 3)"
  by (simp add: pierrefs_link_def example_context_helpers example_context_simps
      relative_path_def resolve_leaf ro_only_fs_def at_rest_def Let_def ENOENT_def
      S_IFLNK_def S_IRWXUGO_def
      symlink_worker_def add_node_def new_node_def unlink_whiteout_def get_path_dentry_def
      vfs_unlink_def snprintf_s_def strncat_def strcat_def PATH_MAX_def)

lemma pierrefs_link_fresh_fs:
  "pierrefs_link example_context [''file.txt''] 2 [''link.txt''] fresh_fs
    = (0, at_rest [''/rw/file.txt'' \<mapsto> plain_file 1, ''/rw/link.txt'' \<mapsto> plain_file 1] 1)"
  by (simp add: pierrefs_link_def example_context_helpers example_context_simps
      relative_path_def resolve_leaf fresh_fs_def at_rest_def Let_def ENOENT_def make_rw_path_def
      link_worker_def plain_file_def unlink_whiteout_def get_path_dentry_def
      vfs_unlink_def snprintf_s_def strncat_def strcat_def PATH_MAX_def)

text \<open>
  C4. A link request that succeeds: when \<^verbatim>\<open>find_file\<close> reports the source as
  \<^verbatim>\<open>READ_ONLY\<close>, and \<^verbatim>\<open>find_path\<close> has left the composed read-write path of
  the target in its buffer, a new object exists at that path of the read-write branch,
  a symbolic link whose target is the concrete path \<^verbatim>\<open>find_file\<close> reported for the
  source (no copy, no second name); for any other origin the composed read-write path
  of the target is a second name of the very object of the source (the same node, with
  its inode number), which is not a directory.
\<close>

theorem pierrefs_link_kind:
  "get_relative_path E old_dentry = (e1, from) \<and> find_file E from {} s = (origin, real_from)
     \<and> get_relative_path_for_file E dir dentry = (e2, to)
     \<and> find_file E to {} s = (e3, rt0)
     \<and> find_path E to (Some rt0) s = (e4, rt1, s1)
     \<and> pierrefs_link E old_dentry dir dentry s = (0, s')
   \<longrightarrow> (origin = READ_ONLY E \<and> rt1 = read_write_branch E @ to
        \<longrightarrow> files s1 (read_write_branch E @ to) = None
          \<and> files s' (read_write_branch E @ to)
              = Some (new_node E (Symlink real_from) (S_IFLNK OR S_IRWXUGO) s1))
     \<and> (origin \<noteq> READ_ONLY E
        \<longrightarrow> (\<exists>n. files s1 real_from = Some n \<and> n_kind n \<noteq> Directory
                \<and> files s1 (read_write_branch E @ to) = None
                \<and> files s' (read_write_branch E @ to) = Some n))"
  using pierrefs_link_read_only [of E old_dentry e1 "from" s real_from dir dentry e2 to e3 rt0
          e4 s1 s']
        pierrefs_link_read_write [of E old_dentry e1 "from" s origin real_from dir dentry e2 to
          e3 rt0 e4 rt1 s1 s']
  by blast

theorem pierrefs_link_kind_witness:
  "get_relative_path example_context [''file.txt''] = (0, ''/file.txt'')
   \<and> get_relative_path_for_file example_context 2 [''link.txt''] = (0, ''/link.txt'')
   \<and> find_file example_context ''/file.txt'' {} ro_only_fs
       = (READ_ONLY example_context, ''/ro/file.txt'')
   \<and> find_file example_context ''/link.txt'' {} ro_only_fs = (- ENOENT, ''/ro/link.txt'')
   \<and> find_path example_context ''/link.txt'' (Some ''/ro/link.txt'') ro_only_fs
       = (0, read_write_branch example_context @ ''/link.txt'', ro_only_fs)
   \<and> fst (pierrefs_link example_context [''file.txt''] 2 [''link.txt''] ro_only_fs) = 0
   \<and> files (snd (pierrefs_link example_context [''file.txt''] 2 [''link.txt''] ro_only_fs))
        ''/rw/link.txt''
       = Some \<lparr>n_kind = Symlink ''/ro/file.txt'', n_mode = 41471, n_uid = 1000,
               n_gid = 1000, n_ino = 2\<rparr>
   \<and> find_file example_context ''/file.txt'' {} fresh_fs
       = (READ_WRITE example_context, ''/rw/file.txt'')
   \<and> READ_WRITE example_context \<noteq> READ_ONLY example_context
   \<and> fst (pierrefs_link example_context [''file.txt''] 2 [''link.txt''] fresh_fs) = 0
   \<and> files (snd (pierrefs_link example_context [''file.txt''] 2 [''link.txt''] fresh_fs))
        ''/rw/link.txt'' = files fresh_fs ''/rw/file.txt''
   \<and> files fresh_fs ''/rw/file.txt'' = Some (plain_file 1)"
proof -
  have a: "get_relative_path example_context [''file.txt''] = (0, ''/file.txt'')"
    "get_relative_path_for_file example_context 2 [''link.txt''] = (0, ''/link.txt'')"
    by (simp_all add: example_context_helpers relative_path_def)
  have b: "find_file example_context ''/file.txt'' {} ro_only_fs
             = (READ_ONLY example_context, ''/ro/file.txt'')"
    "find_file example_context ''/link.txt'' {} ro_only_fs = (- ENOENT, ''/ro/link.txt'')"
    "find_file example_context ''/file.txt'' {} fresh_fs
             = (READ_WRITE example_context, ''/rw/file.txt'')"
    "find_file example_context ''/link.txt'' {} fresh_fs = (- ENOENT, ''/ro/link.txt'')"
    by (simp_all add: example_context_helpers resolve_leaf ro_only_fs_def at_rest_def fresh_fs_def at_rest_def)
  have c: "find_path example_context ''/link.txt'' (Some ''/ro/link.txt'') ro_only_fs
             = (0, read_write_branch example_context @ ''/link.txt'', ro_only_fs)"
    "find_path example_context ''/link.txt'' (Some ''/ro/link.txt'') fresh_fs
             = (0, read_write_branch example_context @ ''/link.txt'', fresh_fs)"
    by (simp_all add: example_context_simps)
  have d: "READ_WRITE example_context \<noteq> READ_ONLY example_context"
    by (simp add: example_context_helpers)
  have e: "files fresh_fs ''/rw/file.txt'' = Some (plain_file 1)"
    by (simp add: fresh_fs_def at_rest_def)
  have f: "pierrefs_link example_context [''file.txt''] 2 [''link.txt''] ro_only_fs
             = (0, snd (pierrefs_link example_context [''file.txt''] 2 [''link.txt''] ro_only_fs))"
    "pierrefs_link example_context [''file.txt''] 2 [''link.txt''] fresh_fs
             = (0, snd (pierrefs_link example_context [''file.txt''] 2 [''link.txt''] fresh_fs))"
    by (simp_all add: pierrefs_link_ro_only_fs pierrefs_link_fresh_fs)
  from pierrefs_link_kind
         [of example_context "[''file.txt'']" 0 "''/file.txt''" ro_only_fs
             "READ_ONLY example_context" "''/ro/file.txt''" 2 "[''link.txt'']" 0 "''/link.txt''"
             "- ENOENT" "''/ro/link.txt''" 0 "read_write_branch example_context @ ''/link.txt''"
             ro_only_fs
             "snd (pierrefs_link example_context [''file.txt''] 2 [''link.txt''] ro_only_fs)"]
       a b c f
  have g: "files (snd (pierrefs_link example_context [''file.txt''] 2 [''link.txt'']
                         ro_only_fs)) (read_write_branch example_context @ ''/link.txt'')
       = Some (new_node example_context (Symlink ''/ro/file.txt'') (S_IFLNK OR S_IRWXUGO)
                 ro_only_fs)"
    by simp
  from pierrefs_link_kind
         [of example_context "[''file.txt'']" 0 "''/file.txt''" fresh_fs
             "READ_WRITE example_context" "''/rw/file.txt''" 2 "[''link.txt'']" 0 "''/link.txt''"
             "- ENOENT" "''/ro/link.txt''" 0 "read_write_branch example_context @ ''/link.txt''"
             fresh_fs
             "snd (pierrefs_link example_context [''file.txt''] 2 [''link.txt''] fresh_fs)"]
       a b c d f
  have h: "\<exists>n. files fresh_fs ''/rw/file.txt'' = Some n
           \<and> files (snd (pierrefs_link example_context [''file.txt''] 2 [''link.txt'']
                         fresh_fs)) (read_write_branch example_context @ ''/link.txt'') = Some n"
    by auto
  have g': "files (snd (pierrefs_link example_context [''file.txt''] 2 [''link.txt'']
                          ro_only_fs)) ''/rw/link.txt''
       = Some \<lparr>n_kind = Symlink ''/ro/file.txt'', n_mode = 41471, n_uid = 1000,
               n_gid = 1000, n_ino = 2\<rparr>"
    using g
    by (simp add: example_context_simps new_node_def S_IFLNK_def S_IRWXUGO_def ro_only_fs_def at_rest_def)
  have h': "files (snd (pierrefs_link example_context [''file.txt''] 2 [''link.txt'']
                          fresh_fs)) ''/rw/link.txt'' = files fresh_fs ''/rw/file.txt''"
    using h by (auto simp: example_context_simps)
  have k: "fst (pierrefs_link example_context [''file.txt''] 2 [''link.txt''] ro_only_fs) = 0"
    "fst (pierrefs_link example_context [''file.txt''] 2 [''link.txt''] fresh_fs) = 0"
    by (simp_all add: pierrefs_link_ro_only_fs pierrefs_link_fresh_fs)
  from g' h' k a b(1,2,3) c(1) d e show ?thesis
    by simp
qed

subsection \<open>Changing attributes\<close>

lemma pierrefs_setattr_read_write:
  assumes "get_relative_path E dentry = (0, path)"
    and "find_file E path {} s = (origin, real_path)" and "0 \<le> origin"
    and "origin = READ_WRITE E \<or> origin = READ_WRITE_COPYUP E"
  shows "pierrefs_setattr E dentry attr s = (dentry_notify_change E dentry attr, s)"
  using assms
  by (auto simp: pierrefs_setattr_def Let_def)

lemma pierrefs_setattr_read_only:
  assumes "get_relative_path E dentry = (0, path)"
    and "find_file E path {} s = (origin, real_path)" and "0 \<le> origin"
    and "origin \<noteq> READ_WRITE E" and "origin \<noteq> READ_WRITE_COPYUP E"
  shows "pierrefs_setattr E dentry attr s = set_me_worker E path real_path attr s"
  using assms
  by (auto simp: pierrefs_setattr_def Let_def)

text \<open>
  C5. For a target that resolves to the read-write branch, the attribute change is
  applied to the object of that branch. The code does not do that: it hands
  \<^verbatim>\<open>notify_change\<close> the dentry of the request, which is the union's own, and never
  the object \<^verbatim>\<open>find_file\<close> found at \<open>real_path\<close>. Whenever the target resolves to
  \<^verbatim>\<open>READ_WRITE\<close> or \<^verbatim>\<open>READ_WRITE_COPYUP\<close>, \<^verbatim>\<open>pierrefs_setattr\<close> returns the
  status of that call and every object of both branches is as it was.
\<close>

theorem pierrefs_setattr_leaves_object:
  "get_relative_path E dentry = (0, path) \<and> find_file E path {} s = (origin, real_path)
     \<and> 0 \<le> origin \<and> (origin = READ_WRITE E \<or> origin = READ_WRITE_COPYUP E)
   \<longrightarrow> pierrefs_setattr E dentry attr s = (dentry_notify_change E dentry attr, s)"
  using pierrefs_setattr_read_write [of E dentry path s origin real_path attr]
  by blast

theorem pierrefs_setattr_leaves_object_witness:
  "get_relative_path example_context [''file.txt''] = (0, ''/file.txt'')
   \<and> find_file example_context ''/file.txt'' {} copied_fs
       = (READ_WRITE example_context, ''/rw/file.txt'')
   \<and> 0 \<le> READ_WRITE example_context
   \<and> ATTR_MODE \<in> ia_valid chmod_600
   \<and> ia_mode chmod_600 = 384
   \<and> pierrefs_setattr example_context [''file.txt''] chmod_600 copied_fs = (0, copied_fs)
   \<and> map_option n_mode (files copied_fs ''/rw/file.txt'') = Some 420"
proof -
  have a: "get_relative_path example_context [''file.txt''] = (0, ''/file.txt'')"
    by (simp add: example_context_helpers relative_path_def)
  have b: "find_file example_context ''/file.txt'' {} copied_fs
             = (READ_WRITE example_context, ''/rw/file.txt'')"
    by (simp add: example_context_helpers resolve_leaf copied_fs_def at_rest_def)
  have c: "0 \<le> READ_WRITE example_context"
    by (simp add: example_context_helpers)
  have d: "ATTR_MODE \<in> ia_valid chmod_600" "ia_mode chmod_600 = 384"
    "map_option n_mode (files copied_fs ''/rw/file.txt'') = Some 420"
    by (simp_all add: chmod_600_def copied_fs_def at_rest_def plain_file_def)
  from pierrefs_setattr_leaves_object
         [of example_context "[''file.txt'']" "''/file.txt''" copied_fs
             "READ_WRITE example_context" "''/rw/file.txt''" chmod_600]
       a b c
  have "pierrefs_setattr example_context [''file.txt''] chmod_600 copied_fs = (0, copied_fs)"
    by (simp add: example_context_helpers)
  with a b c d show ?thesis
    by simp
qed

end
